theory Spec2Isabelle
  imports Main "HOL-Library.Sublist"
begin

section \<open>Python strings\<close>

text \<open>
  The scraped text is modelled as \<^typ>\<open>string\<close>: one \<^typ>\<open>char\<close> per code point,
  code points 0 to 255 (Latin-1). The non-breaking space U+00A0 that \<open>get_spec\<close> looks for
  is a character of that range.
\<close>

definition nbsp :: char where
  "nbsp = CHR 0xA0"

text \<open>\<open>\d\<close> of a \<open>str\<close> pattern: the decimal digits (in Latin-1 only 0 to 9).\<close>

definition is_digit :: "char \<Rightarrow> bool" where
  "is_digit c = (c \<in> set ''0123456789'')"

text \<open>\<open>\s\<close> of a \<open>str\<close> pattern and the characters \<open>str.strip()\<close> removes
  (\<open>str.isspace\<close>): in Latin-1 these are 0x09 to 0x0D, 0x1C to 0x1F, 0x20, 0x85 and 0xA0.\<close>

definition is_space :: "char \<Rightarrow> bool" where
  "is_space c = (c \<in> set [CHR 0x09, CHR 0x0A, CHR 0x0B, CHR 0x0C, CHR 0x0D,
                            CHR 0x1C, CHR 0x1D, CHR 0x1E, CHR 0x1F, CHR 0x20,
                            CHR 0x85, CHR 0xA0])"

text \<open>\<open>str.lower()\<close> on one character: A to Z, and 0xC0 to 0xDE without the
  multiplication sign 0xD7, move up by 32.\<close>

definition lower_chr :: "char \<Rightarrow> char" where
  "lower_chr c =
     (let n = (of_char c :: nat)
      in if (65 \<le> n \<and> n \<le> 90) \<or> (192 \<le> n \<and> n \<le> 222 \<and> n \<noteq> 215)
         then char_of (n + 32) else c)"

definition lower :: "string \<Rightarrow> string" where
  "lower s = map lower_chr s"

text \<open>\<open>str.upper()\<close> on one character, for the characters whose upper case is again one
  Latin-1 character. The source calls it only on a match of \<open>f/\d+(\.\d+)?\<close>.\<close>

definition upper_chr :: "char \<Rightarrow> char" where
  "upper_chr c =
     (let n = (of_char c :: nat)
      in if (97 \<le> n \<and> n \<le> 122) \<or> (224 \<le> n \<and> n \<le> 254 \<and> n \<noteq> 247)
         then char_of (n - 32) else c)"

definition upper :: "string \<Rightarrow> string" where
  "upper s = map upper_chr s"

text \<open>\<open>s.strip()\<close> and \<open>s.strip(chars)\<close>: drop the characters of the class at both ends.\<close>

definition strip_with :: "(char \<Rightarrow> bool) \<Rightarrow> string \<Rightarrow> string" where
  "strip_with p s = rev (dropWhile p (rev (dropWhile p s)))"

definition strip :: "string \<Rightarrow> string" where
  "strip s = strip_with is_space s"

definition strip_chars :: "string \<Rightarrow> string \<Rightarrow> string" where
  "strip_chars chars s = strip_with (\<lambda>c. c \<in> set chars) s"

text \<open>\<open>s.split(sep)\<close> for a one-character separator: never the empty list.\<close>

fun split_chr :: "char \<Rightarrow> string \<Rightarrow> string list" where
  "split_chr sep [] = [[]]"
| "split_chr sep (c # cs) =
     (if c = sep then [] # split_chr sep cs
      else (case split_chr sep cs of
              [] \<Rightarrow> [[c]]
            | w # ws \<Rightarrow> (c # w) # ws))"

text \<open>\<open>sep.join(parts)\<close>.\<close>

fun join :: "string \<Rightarrow> string list \<Rightarrow> string" where
  "join sep [] = []"
| "join sep [x] = x"
| "join sep (x # y # zs) = x @ sep @ join sep (y # zs)"

text \<open>\<open>sub in s\<close>.\<close>

fun contains :: "string \<Rightarrow> string \<Rightarrow> bool" where
  "contains sub [] = (sub = [])"
| "contains sub (c # cs) = (prefix sub (c # cs) \<or> contains sub cs)"

text \<open>\<open>s.replace(old, new)\<close>: the occurrences of \<open>old\<close> are taken from the left and do
  not overlap; an empty \<open>old\<close> puts \<open>new\<close> before every character and at the end.\<close>

fun replace_from :: "string \<Rightarrow> string \<Rightarrow> nat \<Rightarrow> string \<Rightarrow> string" where
  "replace_from old new k [] = []"
| "replace_from old new (Suc k) (c # cs) = replace_from old new k cs"
| "replace_from old new 0 (c # cs) =
     (if prefix old (c # cs) then new @ replace_from old new (length old - 1) cs
      else c # replace_from old new 0 cs)"

definition replace :: "string \<Rightarrow> string \<Rightarrow> string \<Rightarrow> string" where
  "replace old new s =
     (if old = [] then new @ concat (map (\<lambda>c. c # new) s)
      else replace_from old new 0 s)"

text \<open>\<open>a or b\<close> on strings: \<open>a\<close> when it is not empty, else \<open>b\<close>.\<close>

definition py_or :: "string \<Rightarrow> string \<Rightarrow> string" where
  "py_or a b = (if a \<noteq> [] then a else b)"

text \<open>\<open>xs[0]\<close>: an IndexError on the empty list is the value \<open>None\<close>.\<close>

definition index0 :: "'a list \<Rightarrow> 'a option" where
  "index0 xs = (case xs of [] \<Rightarrow> None | x # _ \<Rightarrow> Some x)"

section \<open>The regular expressions of the formatter\<close>

text \<open>
  The patterns of \<open>transform_gsmarena_to_formatted\<close> use literals, the classes \<open>\d\<close>
  and \<open>\s\<close> under \<open>+\<close> and \<open>*\<close>, alternation, and one optional group. \<open>Rep c n\<close> is the
  greedy repetition of class \<open>c\<close>, at least \<open>n\<close> times; \<open>LitI\<close> is a literal under
  \<open>re.IGNORECASE\<close>.
\<close>

datatype cclass = Digit | Space

fun in_class :: "cclass \<Rightarrow> char \<Rightarrow> bool" where
  "in_class Digit c = is_digit c"
| "in_class Space c = is_space c"

datatype rx = Lit string | LitI string | Rep cclass nat | Seq rx rx | Alt rx rx | Opt rx

text \<open>\<open>rmatch r s\<close>: what is left of \<open>s\<close> after a match of \<open>r\<close> at its start, every way
  of matching, in the order in which the backtracking matcher tries them (a greedy
  repetition tries the longest run first, an optional group tries its body first).\<close>

fun rmatch :: "rx \<Rightarrow> string \<Rightarrow> string list" where
  "rmatch (Lit w) s = (if prefix w s then [drop (length w) s] else [])"
| "rmatch (LitI w) s =
     (if length w \<le> length s \<and> lower (take (length w) s) = lower w
      then [drop (length w) s] else [])"
| "rmatch (Rep c n) s =
     map (\<lambda>k. drop k s) (rev [n ..< Suc (length (takeWhile (in_class c) s))])"
| "rmatch (Seq a b) s = concat (map (rmatch b) (rmatch a s))"
| "rmatch (Alt a b) s = rmatch a s @ rmatch b s"
| "rmatch (Opt a) s = rmatch a s @ [s]"

text \<open>A pattern is a list of segments, so that a capturing group is a segment of its own.
  \<open>pieces rs s\<close>: the texts of the segments, for every way of matching them one after the
  other at the start of \<open>s\<close>, in the matcher's order.\<close>

fun pieces :: "rx list \<Rightarrow> string \<Rightarrow> string list list" where
  "pieces [] s = [[]]"
| "pieces (r # rs) s =
     concat (map (\<lambda>t. map ((#) (take (length s - length t) s)) (pieces rs t)) (rmatch r s))"

text \<open>\<open>re.search\<close>: the first way of matching at the leftmost position that has one.\<close>

fun search :: "rx list \<Rightarrow> string \<Rightarrow> string list option" where
  "search rs [] = (case pieces rs [] of [] \<Rightarrow> None | p # _ \<Rightarrow> Some p)"
| "search rs (c # cs) =
     (case pieces rs (c # cs) of [] \<Rightarrow> search rs cs | p # _ \<Rightarrow> Some p)"

text \<open>\<open>m.group(0)\<close> and \<open>m.group(1)\<close> of \<open>m = re.search(...)\<close>, \<open>None\<close> when there is no match.
  In every pattern below that reads group 1, the group is the first segment.\<close>

definition group0 :: "rx list \<Rightarrow> string \<Rightarrow> string option" where
  "group0 rs s = (case search rs s of None \<Rightarrow> None | Some p \<Rightarrow> Some (concat p))"

definition group1 :: "rx list \<Rightarrow> string \<Rightarrow> string option" where
  "group1 rs s = (case search rs s of Some (g # _) \<Rightarrow> Some g | _ \<Rightarrow> None)"

text \<open>\<open>\d+(\.\d+)?\<close> followed by the literal \<open>w\<close>.\<close>

definition decimal_then :: "rx \<Rightarrow> rx" where
  "decimal_then w = Seq (Rep Digit 1) (Seq (Opt (Seq (Lit ''.'') (Rep Digit 1))) w)"

text \<open>\<open>f/\d+(\.\d+)?\<close>\<close>

definition aperture_rx :: "rx list" where
  "aperture_rx = [Seq (Lit ''f/'') (Seq (Rep Digit 1) (Opt (Seq (Lit ''.'') (Rep Digit 1))))]"

text \<open>\<open>\d+\s*mm\<close>\<close>

definition focal_length_rx :: "rx list" where
  "focal_length_rx = [Seq (Rep Digit 1) (Seq (Rep Space 0) (Lit ''mm''))]"

text \<open>\<open>(\d+\s*mAh)\<close>\<close>

definition capacity_rx :: "rx list" where
  "capacity_rx = [Seq (Rep Digit 1) (Seq (Rep Space 0) (Lit ''mAh''))]"

text \<open>\<open>(\d+(\.\d+)?W)\s+wired\<close> and \<open>(\d+(\.\d+)?W)\s+wireless\<close>, with
  \<open>re.IGNORECASE\<close>\<close>

definition wired_speed_rx :: "rx list" where
  "wired_speed_rx = [decimal_then (LitI ''W''), Seq (Rep Space 1) (LitI ''wired'')]"

definition wireless_speed_rx :: "rx list" where
  "wireless_speed_rx = [decimal_then (LitI ''W''), Seq (Rep Space 1) (LitI ''wireless'')]"

text \<open>\<open>(\d+Hz)\<close>\<close>

definition refresh_rate_rx :: "rx list" where
  "refresh_rate_rx = [Seq (Rep Digit 1) (Lit ''Hz'')]"

text \<open>\<open>(\d+(\.\d+)?%)\s*\(screen-to-body ratio\)\<close>\<close>

definition s2b_rx :: "rx list" where
  "s2b_rx = [decimal_then (Lit ''%''), Seq (Rep Space 0) (Lit ''(screen-to-body ratio)'')]"

text \<open>\<open>(\d+)\s*nits\s*\(peak\)\<close>, with \<open>re.IGNORECASE\<close>\<close>

definition brightness_rx :: "rx list" where
  "brightness_rx =
     [Rep Digit 1,
      Seq (Rep Space 0) (Seq (LitI ''nits'') (Seq (Rep Space 0) (LitI ''(peak)'')))]"

text \<open>\<open>\d+\s*(?:GB|TB)\<close> and \<open>\d+\s*GB\<close>\<close>

definition size_gb_tb :: rx where
  "size_gb_tb = Seq (Rep Digit 1) (Seq (Rep Space 0) (Alt (Lit ''GB'') (Lit ''TB'')))"

definition size_gb :: rx where
  "size_gb = Seq (Rep Digit 1) (Seq (Rep Space 0) (Lit ''GB''))"

text \<open>\<open>(\d+\s*(?:GB|TB))\s+(\d+\s*GB)\s+RAM\<close>: the groups are segments 0 and 2.\<close>

definition storage_ram_rx :: "rx list" where
  "storage_ram_rx = [size_gb_tb, Rep Space 1, size_gb, Seq (Rep Space 1) (Lit ''RAM'')]"

text \<open>\<open>(\d+\s*(?:GB|TB))\<close>\<close>

definition storage_rx :: "rx list" where
  "storage_rx = [size_gb_tb]"

text \<open>\<open>(\d+\s*GB)\s+RAM\<close>\<close>

definition ram_rx :: "rx list" where
  "ram_rx = [size_gb, Seq (Rep Space 1) (Lit ''RAM'')]"

section \<open>The raw record and the lookup\<close>

type_synonym specs_map = "string \<rightharpoonup> (string \<rightharpoonup> string)"

text \<open>The dictionary \<open>scrape_device\<close> returns. \<open>specs\<close> is optional because the formatter
  reads it with \<open>data.get("specs", {})\<close>.\<close>

record raw_data =
  url :: string
  name :: string
  image :: "string option"
  highlights :: "string list"
  specs :: "specs_map option"

text \<open>\<open>get_spec\<close>, the helper of \<open>transform_gsmarena_to_formatted\<close>:
  \<^verbatim>\<open>key = key.replace("  ", "\xa0")\<close>, then
  \<^verbatim>\<open>data.get("specs", {}).get(category, {}).get(key, default)\<close>.\<close>

definition get_spec :: "raw_data \<Rightarrow> string \<Rightarrow> string \<Rightarrow> string \<Rightarrow> string" where
  "get_spec data category key dflt =
     (let key' = replace ''  '' [nbsp] key;
          all_specs = (case specs data of None \<Rightarrow> Map.empty | Some m \<Rightarrow> m);
          cat = (case all_specs category of None \<Rightarrow> Map.empty | Some m \<Rightarrow> m)
      in case cat key' of None \<Rightarrow> dflt | Some v \<Rightarrow> v)"

section \<open>The formatter\<close>

text \<open>A section of the output is a Python dictionary literal: its labels in the order
  written, each with its text. The formatted record is the dictionary of the sections.\<close>

type_synonym section_data = "(string \<times> string) list"

type_synonym formatted = "(string \<times> section_data) list"

subsection \<open>Camera\<close>

text \<open>\<^verbatim>\<open>get_spec("MAIN CAMERA", "Triple") or get_spec("MAIN CAMERA", "Quad") or
  get_spec("MAIN CAMERA", "Dual") or get_spec("MAIN CAMERA", "Single")\<close>\<close>

definition main_cam_spec :: "raw_data \<Rightarrow> string" where
  "main_cam_spec data =
     py_or (py_or (py_or (get_spec data ''MAIN CAMERA'' ''Triple'' '''')
                         (get_spec data ''MAIN CAMERA'' ''Quad'' ''''))
                  (get_spec data ''MAIN CAMERA'' ''Dual'' ''''))
           (get_spec data ''MAIN CAMERA'' ''Single'' '''')"

text \<open>The list \<open>specs_str\<close>, built from the aperture and the focal length found in the
  first line.\<close>

definition specs_str :: "string \<Rightarrow> string list" where
  "specs_str line =
     (case group0 aperture_rx line of
        None \<Rightarrow> []
      | Some a \<Rightarrow> [''Aperture size: '' @ upper a]) @
     (case group0 focal_length_rx line of
        None \<Rightarrow> []
      | Some f \<Rightarrow> [''Focal Length: '' @ f])"

definition camera_data :: "raw_data \<Rightarrow> section_data option" where
  "camera_data data =
     (let flash = get_spec data ''MAIN CAMERA'' ''Features'' '''';
          front = py_or (get_spec data ''SELFIE CAMERA'' ''Single'' '''')
                        (get_spec data ''SELFIE CAMERA'' ''Dual'' '''');
          video = get_spec data ''MAIN CAMERA'' ''Video'' '''';
          m = main_cam_spec data
      in if m \<noteq> [] then
           (case index0 (split_chr CHR 0x0A m) of
              None \<Rightarrow> None
            | Some rear \<Rightarrow>
                (let cam_specs = map strip (split_chr CHR 0x0A m)
                 in Some [(''Rear:'', rear),
                          (''Flash:'', flash),
                          (''Front:'', front),
                          (''Folded:'', ''''),
                          (''Main camera:'', if length cam_specs > 0 then cam_specs ! 0 else ''''),
                          (''Second camera:'', if length cam_specs > 1 then cam_specs ! 1 else ''''),
                          (''Third camera:'', if length cam_specs > 2 then cam_specs ! 2 else ''''),
                          (''Specifications:'',
                             if length cam_specs > 0 then join '' '' (specs_str (cam_specs ! 0))
                             else ''''),
                          (''Video recording:'', video)]))
         else
           Some [(''Rear:'', ''''),
                 (''Flash:'', flash),
                 (''Front:'', front),
                 (''Folded:'', ''''),
                 (''Main camera:'', ''''),
                 (''Second camera:'', ''''),
                 (''Third camera:'', ''''),
                 (''Specifications:'', ''''),
                 (''Video recording:'', video)])"

subsection \<open>Design\<close>

definition design_data :: "raw_data \<Rightarrow> section_data" where
  "design_data data =
     [(''Keys:'', ''Right: Volume control, Lock/Unlock key''),
      (''Colors:'', get_spec data ''MISC'' ''Colors'' ''''),
      (''Folded:'', get_spec data ''BODY'' ''Folded'' ''''),
      (''Weight:'', get_spec data ''BODY'' ''Weight'' ''''),
      (''Materials:'', get_spec data ''BODY'' ''Build'' ''''),
      (''Biometrics:'', get_spec data ''FEATURES'' ''Sensors'' ''''),
      (''Dimensions:'', get_spec data ''BODY'' ''Dimensions'' ''''),
      (''Resistance:'',
         py_or (get_spec data ''BODY'' ''  '' '''') (get_spec data ''BODY'' '''' ''''))]"

subsection \<open>Battery\<close>

text \<open>\<open>capacity\<close> and \<open>type_info\<close>, from the text at BATTERY / Type, and the
  \<open>"Type:"\<close> entry built from \<open>type_info\<close>.\<close>

definition capacity :: "string \<Rightarrow> string" where
  "capacity battery_type_str =
     (case group1 capacity_rx battery_type_str of None \<Rightarrow> '''' | Some g \<Rightarrow> strip g)"

definition type_info :: "string \<Rightarrow> string" where
  "type_info battery_type_str =
     (case group0 capacity_rx battery_type_str of
        None \<Rightarrow> battery_type_str
      | Some g \<Rightarrow> strip_chars '', '' (replace g '''' battery_type_str))"

definition battery_type :: "string \<Rightarrow> string" where
  "battery_type battery_type_str =
     (let t = type_info battery_type_str
      in if contains ''non-removable'' (lower t) then t @ '', Not user replaceable'' else t)"

text \<open>The \<open>"Max charge speed:"\<close> entry, from the text at BATTERY / Charging:
  \<open>''.join(speeds)\<close>.\<close>

definition max_charge_speed :: "string \<Rightarrow> string" where
  "max_charge_speed charging_str =
     join ''''
       ((case group1 wired_speed_rx charging_str of
           None \<Rightarrow> []
         | Some w \<Rightarrow> [''Wired: '' @ w]) @
        (case group1 wireless_speed_rx charging_str of
           None \<Rightarrow> []
         | Some w \<Rightarrow> [''Wireless: '' @ w]))"

definition battery_data :: "raw_data \<Rightarrow> section_data" where
  "battery_data data =
     (let battery_type_str = get_spec data ''BATTERY'' ''Type'' '''';
          charging_str = get_spec data ''BATTERY'' ''Charging'' ''''
      in [(''Type:'', battery_type battery_type_str),
          (''Capacity:'', capacity battery_type_str),
          (''Charging:'', get_spec data ''BATTERY'' ''Charging'' ''''),
          (''Max charge speed:'', max_charge_speed charging_str)])"

subsection \<open>Display\<close>

definition refresh_rate :: "string \<Rightarrow> string" where
  "refresh_rate display_type_str =
     (case group1 refresh_rate_rx display_type_str of None \<Rightarrow> '''' | Some g \<Rightarrow> g)"

definition screen_to_body :: "string \<Rightarrow> string" where
  "screen_to_body size_str =
     (case group1 s2b_rx size_str of None \<Rightarrow> '''' | Some g \<Rightarrow> g @ '' %'')"

definition peak_brightness :: "string \<Rightarrow> string" where
  "peak_brightness display_type_str =
     (case group1 brightness_rx display_type_str of
        None \<Rightarrow> ''''
      | Some g \<Rightarrow> g @ '' cd/m2 (nit)'')"

definition display_data :: "raw_data \<Rightarrow> section_data option" where
  "display_data data =
     (let display_type_str = get_spec data ''DISPLAY'' ''Type'' '''';
          size_str = get_spec data ''DISPLAY'' ''Size'' ''''
      in case index0 (split_chr CHR '','' (get_spec data ''DISPLAY'' ''Size'' '''')) of
           None \<Rightarrow> None
         | Some size0 \<Rightarrow>
             (case index0 (split_chr CHR '','' (get_spec data ''DISPLAY'' ''Type'' '''')) of
                None \<Rightarrow> None
              | Some technology \<Rightarrow>
                  Some [(''Size:'', strip size0),
                        (''Features:'', get_spec data ''FEATURES'' ''Sensors'' ''''),
                        (''Resolution:'', get_spec data ''DISPLAY'' ''Resolution'' ''''),
                        (''Technology:'', technology),
                        (''Refresh rate:'', refresh_rate display_type_str),
                        (''Screen-to-body:'', screen_to_body size_str),
                        (''Peak brightness:'', peak_brightness display_type_str),
                        (''Front cover display:'',
                           py_or (get_spec data ''DISPLAY'' ''Secondary display'' '''') '''')]))"

subsection \<open>Cellular\<close>

definition cellular_data :: "raw_data \<Rightarrow> section_data" where
  "cellular_data data =
     [(''Technology:'', get_spec data ''NETWORK'' ''Technology'' ''''),
      (''2G bands:'', get_spec data ''NETWORK'' ''2G bands'' ''''),
      (''3G bands:'', get_spec data ''NETWORK'' ''3G bands'' ''''),
      (''4G bands:'', get_spec data ''NETWORK'' ''4G bands'' ''''),
      (''5G bands:'', get_spec data ''NETWORK'' ''5G bands'' ''''),
      (''SIM type:'', get_spec data ''BODY'' ''SIM'' '''')]"

subsection \<open>Hardware\<close>

text \<open>\<open>(storage, ram)\<close> from the text at MEMORY / Internal: the first pair that
  \<open>re.findall\<close> returns, else the two single searches.\<close>

definition storage_ram :: "string \<Rightarrow> string \<times> string" where
  "storage_ram internal_mem =
     (case search storage_ram_rx internal_mem of
        Some [st, _, rm, _] \<Rightarrow> (st, rm)
      | _ \<Rightarrow>
          ((case group1 storage_rx internal_mem of None \<Rightarrow> '''' | Some g \<Rightarrow> g),
           (case group1 ram_rx internal_mem of None \<Rightarrow> '''' | Some g \<Rightarrow> g)))"

definition internal_storage :: "string \<Rightarrow> string \<Rightarrow> string" where
  "internal_storage storage card_slot =
     (if lower card_slot \<in> set [''no'', ''''] then storage @ '' (UFS), not expandable''
      else storage @ '' (UFS)'')"

definition hardware_data :: "raw_data \<Rightarrow> section_data" where
  "hardware_data data =
     (let internal_mem = get_spec data ''MEMORY'' ''Internal'' '''';
          storage = fst (storage_ram internal_mem);
          ram = snd (storage_ram internal_mem)
      in [(''OS:'', get_spec data ''PLATFORM'' ''OS'' ''''),
          (''GPU:'', get_spec data ''PLATFORM'' ''GPU'' ''''),
          (''RAM:'', ram),
          (''Processor:'', get_spec data ''PLATFORM'' ''Chipset'' ''''),
          (''Device type:'', ''Smartphone''),
          (''Internal storage:'',
             internal_storage storage (get_spec data ''MEMORY'' ''Card slot'' ''''))])"

subsection \<open>Multimedia\<close>

definition multimedia_data :: "raw_data \<Rightarrow> section_data" where
  "multimedia_data data =
     [(''Speakers:'', get_spec data ''SOUND'' ''Loudspeaker'' ''''),
      (''Headphones:'', get_spec data ''SOUND'' ''3.5mm jack'' ''''),
      (''Screen mirroring:'', ''Wireless screen share''),
      (''Additional microphone(s):'',
         if contains ''dedicated mic'' (lower (get_spec data ''SOUND'' ''  '' ''''))
         then ''Noise cancellation'' else '''')]"

subsection \<open>Connectivity and features\<close>

definition other_features :: "raw_data \<Rightarrow> string list" where
  "other_features data =
     (if get_spec data ''COMMS'' ''NFC'' '''' \<noteq> [] then [''NFC''] else []) @
     (if get_spec data ''COMMS'' ''Infrared port'' '''' \<noteq> [] then [''Infrared''] else [])"

definition connectivity_data :: "raw_data \<Rightarrow> section_data" where
  "connectivity_data data =
     [(''USB:'', get_spec data ''COMMS'' ''USB'' ''''),
      (''Other:'', join '', '' (other_features data)),
      (''Wi-Fi:'', get_spec data ''COMMS'' ''WLAN'' ''''),
      (''Sensors:'', get_spec data ''FEATURES'' ''Sensors'' ''''),
      (''Features:'', get_spec data ''COMMS'' ''USB'' ''''),
      (''Location:'', get_spec data ''COMMS'' ''Positioning'' ''''),
      (''Bluetooth:'', get_spec data ''COMMS'' ''Bluetooth'' '''')]"

subsection \<open>The formatted record\<close>

text \<open>\<open>None\<close> is an exception leaving the function: on a record of this type an index
  out of range is the only one its operations could raise.\<close>

definition transform_gsmarena_to_formatted :: "raw_data \<Rightarrow> formatted option" where
  "transform_gsmarena_to_formatted data =
     (case camera_data data of
        None \<Rightarrow> None
      | Some cam \<Rightarrow>
          (case display_data data of
             None \<Rightarrow> None
           | Some disp \<Rightarrow>
               Some [(''Camera'', cam),
                     (''Design'', design_data data),
                     (''Battery'', battery_data data),
                     (''Display'', disp),
                     (''Cellular'', cellular_data data),
                     (''Hardware'', hardware_data data),
                     (''Multimedia'', multimedia_data data),
                     (''Connectivity & Features'', connectivity_data data)]))"

section \<open>The crawl ledger\<close>

text \<open>
  The file \<open>scraped_devices.csv\<close>: \<open>None\<close> when it does not exist, else the rows that
  \<open>csv.reader\<close> yields, in order. \<open>csv.writer.writerow\<close> adds one row at the end, and a
  row of two fields is read back as written.
\<close>

type_synonym csv_file = "string list list option"

text \<open>\<open>load_scraped_links_from_csv\<close>: no file, or a file without a first row, gives the
  empty set; else the first row is skipped and the second field of every longer row is
  collected.\<close>

definition load_scraped_links_from_csv :: "csv_file \<Rightarrow> string set" where
  "load_scraped_links_from_csv f =
     (case f of
        None \<Rightarrow> {}
      | Some [] \<Rightarrow> {}
      | Some (header # rows) \<Rightarrow> set (map (\<lambda>row. row ! 1) (filter (\<lambda>row. length row > 1) rows)))"

text \<open>\<open>append_to_csv\<close>: the header row is written when the file did not exist.\<close>

definition append_to_csv :: "string \<Rightarrow> string \<Rightarrow> csv_file \<Rightarrow> csv_file" where
  "append_to_csv device_name link f =
     (case f of
        None \<Rightarrow> Some [[''Device Name'', ''URL''], [device_name, link]]
      | Some rows \<Rightarrow> Some (rows @ [[device_name, link]]))"

text \<open>\<^verbatim>\<open>[link for link in all_links if link not in scraped_links]\<close>\<close>

definition new_links_to_scrape :: "string list \<Rightarrow> string set \<Rightarrow> string list" where
  "new_links_to_scrape all_links scraped_links = filter (\<lambda>link. link \<notin> scraped_links) all_links"

section \<open>The main loop\<close>

text \<open>
  What the loop does outside the process is a parameter: the result of
  \<open>scrape_device\<close> for a link (\<open>None\<close> when its \<open>except\<close> branch ran), whether
  writing a file raises, whether an image download, a photo message and a text message
  succeed, and whether the Telegram token and chat are configured.
\<close>

record env =
  scrape_device :: "string \<Rightarrow> raw_data option"
  write_raises :: "string \<Rightarrow> bool"
  download_ok :: "string \<Rightarrow> bool"
  telegram_configured :: bool
  send_photo_ok :: "string \<Rightarrow> bool"
  send_text_ok :: "string \<Rightarrow> bool"

text \<open>What the loop leaves behind: the files written, keyed by path, the ledger, and the
  messages sent (device name, link, and the attached image if any).\<close>

record world =
  raw_files :: "string \<rightharpoonup> raw_data"
  formatted_files :: "string \<rightharpoonup> formatted"
  image_files :: "string set"
  ledger :: csv_file
  sent :: "(string \<times> string \<times> string option) list"

datatype error = IndexError | OSError

text \<open>\<^verbatim>\<open>re.sub(r'[\\/*?:"<>|]', "", raw_data["name"]).replace(" ", "_")\<close>\<close>

definition safe_name :: "string \<Rightarrow> string" where
  "safe_name n =
     replace '' '' ''_''
       (filter (\<lambda>c. c \<notin> set [CHR 0x5C, CHR ''/'', CHR ''*'', CHR ''?'', CHR '':'', CHR 0x22,
                                  CHR ''<'', CHR ''>'', CHR ''|'']) n)"

text \<open>\<open>os.path.splitext(p)[1]\<close>: the last dot of the last path component and what
  follows it, not counting the dots the component starts with.\<close>

definition splitext_ext :: "string \<Rightarrow> string" where
  "splitext_ext p =
     (let base = rev (takeWhile (\<lambda>c. c \<noteq> CHR ''/'') (rev p));
          body = dropWhile (\<lambda>c. c = CHR ''.'') base
      in if CHR ''.'' \<in> set body
         then CHR ''.'' # rev (takeWhile (\<lambda>c. c \<noteq> CHR ''.'') (rev body))
         else [])"

text \<open>\<open>download_and_resize_image\<close>: every failure is caught inside.\<close>

definition download_and_resize_image :: "env \<Rightarrow> string \<Rightarrow> string \<Rightarrow> world \<Rightarrow> world" where
  "download_and_resize_image e image_url save_path w =
     (if image_url = [] then w
      else if download_ok e image_url then w\<lparr>image_files := insert save_path (image_files w)\<rparr>
      else w)"

text \<open>\<open>send_telegram_notification\<close>: a photo message when the image file exists, a text
  message when there is none or the photo message failed; every failure is caught inside.\<close>

definition send_telegram_notification ::
  "env \<Rightarrow> string \<Rightarrow> string \<Rightarrow> string option \<Rightarrow> world \<Rightarrow> world" where
  "send_telegram_notification e device_name device_url image_path w =
     (if \<not> telegram_configured e then w
      else
        (case image_path of
           Some p \<Rightarrow>
             if p \<noteq> [] \<and> p \<in> image_files w \<and> send_photo_ok e device_name
             then w\<lparr>sent := sent w @ [(device_name, device_url, Some p)]\<rparr>
             else if send_text_ok e device_name
             then w\<lparr>sent := sent w @ [(device_name, device_url, None)]\<rparr>
             else w
         | None \<Rightarrow>
             if send_text_ok e device_name
             then w\<lparr>sent := sent w @ [(device_name, device_url, None)]\<rparr>
             else w))"

text \<open>The body of the \<open>for\<close> loop of \<open>my.py\<close> for one link. \<open>Inl\<close> is an exception that
  leaves the body: nothing in the body or around the loop catches it.\<close>

definition process_link :: "env \<Rightarrow> world \<Rightarrow> string \<Rightarrow> error + world" where
  "process_link e w link =
     (case scrape_device e link of
        None \<Rightarrow> Inr w
      | Some raw \<Rightarrow>
          (case transform_gsmarena_to_formatted raw of
             None \<Rightarrow> Inl IndexError
           | Some formatted_data \<Rightarrow>
               (let sname = safe_name (name raw);
                    raw_filename = ''raw_data/'' @ sname @ ''.json'';
                    formatted_filename = ''formatted_data/'' @ sname @ ''.json''
                in if write_raises e raw_filename then Inl OSError
                   else
                     (let w1 = w\<lparr>raw_files := (raw_files w)(raw_filename \<mapsto> raw)\<rparr>
                      in if write_raises e formatted_filename then Inl OSError
                         else
                           (let w2 = w1\<lparr>formatted_files :=
                                          (formatted_files w1)(formatted_filename \<mapsto> formatted_data)\<rparr>;
                                image_filename =
                                  (case image raw of
                                     None \<Rightarrow> None
                                   | Some image_url \<Rightarrow>
                                       if image_url = [] then None
                                       else Some (''images/'' @ sname @
                                                  py_or (splitext_ext image_url) ''.jpg''));
                                w3 = (case (image raw, image_filename) of
                                        (Some image_url, Some p) \<Rightarrow>
                                          download_and_resize_image e image_url p w2
                                      | _ \<Rightarrow> w2)
                            in if write_raises e ''scraped_devices.csv'' then Inl OSError
                               else
                                 Inr (send_telegram_notification e (name raw) link image_filename
                                        (w3\<lparr>ledger := append_to_csv (name raw) link (ledger w3)\<rparr>)))))))"

text \<open>The \<open>for\<close> loop over \<open>new_links_to_scrape\<close>.\<close>

fun scrape_all :: "env \<Rightarrow> world \<Rightarrow> string list \<Rightarrow> error + world" where
  "scrape_all e w [] = Inr w"
| "scrape_all e w (link # links) =
     (case process_link e w link of
        Inl err \<Rightarrow> Inl err
      | Inr w' \<Rightarrow> scrape_all e w' links)"

text \<open>The \<open>__main__\<close> block, from the links that \<open>scrape_latest_device_links\<close> returned.\<close>

definition main :: "env \<Rightarrow> string list \<Rightarrow> world \<Rightarrow> error + world" where
  "main e all_links w =
     (if all_links = [] then Inr w
      else
        (let scraped_links = load_scraped_links_from_csv (ledger w);
             new_links = new_links_to_scrape all_links scraped_links
         in if new_links = [] then Inr w else scrape_all e w new_links))"

section \<open>Definitions used to state the properties\<close>

text \<open>The key normalisation as the specification words it: every two consecutive plain
  spaces become one non-breaking space, from the left.\<close>

fun normalize_key :: "string \<Rightarrow> string" where
  "normalize_key (a # b # cs) =
     (if a = CHR '' '' \<and> b = CHR '' '' then nbsp # normalize_key cs
      else a # normalize_key (b # cs))"
| "normalize_key cs = cs"

text \<open>The texts a pattern denotes, independently of any matching order.\<close>

fun lang :: "rx \<Rightarrow> string set" where
  "lang (Lit w) = {w}"
| "lang (LitI w) = {v. lower v = lower w}"
| "lang (Rep c n) = {v. n \<le> length v \<and> list_all (in_class c) v}"
| "lang (Seq a b) = {u @ v | u v. u \<in> lang a \<and> v \<in> lang b}"
| "lang (Alt a b) = lang a \<union> lang b"
| "lang (Opt a) = insert [] (lang a)"

text \<open>\<open>texts_of rs ps\<close>: \<open>ps\<close> gives one text for each segment of the pattern.\<close>

definition texts_of :: "rx list \<Rightarrow> string list \<Rightarrow> bool" where
  "texts_of rs ps = list_all2 (\<lambda>p r. p \<in> lang r) ps rs"

text \<open>\<open>occurs_at rs s i\<close>: some text of the pattern starts at position \<open>i\<close> of \<open>s\<close>.\<close>

definition occurs_at :: "rx list \<Rightarrow> string \<Rightarrow> nat \<Rightarrow> bool" where
  "occurs_at rs s i = (\<exists>ps. texts_of rs ps \<and> prefix (concat ps) (drop i s))"

text \<open>\<open>first_match rs s ps\<close>: \<open>ps\<close> are texts of the segments that start at a position
  of \<open>s\<close> before which no text of the pattern starts. \<open>no_match rs s\<close>: no text of the
  pattern starts anywhere in \<open>s\<close>.\<close>

definition first_match :: "rx list \<Rightarrow> string \<Rightarrow> string list \<Rightarrow> bool" where
  "first_match rs s ps =
     (\<exists>i\<le>length s. texts_of rs ps \<and> prefix (concat ps) (drop i s) \<and>
        (\<forall>j<i. \<not> occurs_at rs s j))"

definition no_match :: "rx list \<Rightarrow> string \<Rightarrow> bool" where
  "no_match rs s = (\<forall>i\<le>length s. \<not> occurs_at rs s i)"

text \<open>One entry of the formatted record: the text under a label of a section.\<close>

definition field :: "formatted \<Rightarrow> string \<Rightarrow> string \<Rightarrow> string option" where
  "field out sec label =
     (case map_of out sec of None \<Rightarrow> None | Some entries \<Rightarrow> map_of entries label)"

text \<open>Every text of the formatted record is empty.\<close>

definition all_fields_empty :: "formatted \<Rightarrow> bool" where
  "all_fields_empty out = list_all (\<lambda>(sec, entries). list_all (\<lambda>(label, v). v = []) entries) out"

text \<open>The record the formatter returns when the raw record has no specs: every text is
  empty but four.\<close>

definition empty_specs_formatted :: formatted where
  "empty_specs_formatted =
     [(''Camera'',
         [(''Rear:'', ''''), (''Flash:'', ''''), (''Front:'', ''''), (''Folded:'', ''''),
          (''Main camera:'', ''''), (''Second camera:'', ''''), (''Third camera:'', ''''),
          (''Specifications:'', ''''), (''Video recording:'', '''')]),
      (''Design'',
         [(''Keys:'', ''Right: Volume control, Lock/Unlock key''), (''Colors:'', ''''),
          (''Folded:'', ''''), (''Weight:'', ''''), (''Materials:'', ''''),
          (''Biometrics:'', ''''), (''Dimensions:'', ''''), (''Resistance:'', '''')]),
      (''Battery'',
         [(''Type:'', ''''), (''Capacity:'', ''''), (''Charging:'', ''''),
          (''Max charge speed:'', '''')]),
      (''Display'',
         [(''Size:'', ''''), (''Features:'', ''''), (''Resolution:'', ''''),
          (''Technology:'', ''''), (''Refresh rate:'', ''''), (''Screen-to-body:'', ''''),
          (''Peak brightness:'', ''''), (''Front cover display:'', '''')]),
      (''Cellular'',
         [(''Technology:'', ''''), (''2G bands:'', ''''), (''3G bands:'', ''''),
          (''4G bands:'', ''''), (''5G bands:'', ''''), (''SIM type:'', '''')]),
      (''Hardware'',
         [(''OS:'', ''''), (''GPU:'', ''''), (''RAM:'', ''''), (''Processor:'', ''''),
          (''Device type:'', ''Smartphone''),
          (''Internal storage:'', '' (UFS), not expandable'')]),
      (''Multimedia'',
         [(''Speakers:'', ''''), (''Headphones:'', ''''),
          (''Screen mirroring:'', ''Wireless screen share''),
          (''Additional microphone(s):'', '''')]),
      (''Connectivity & Features'',
         [(''USB:'', ''''), (''Other:'', ''''), (''Wi-Fi:'', ''''), (''Sensors:'', ''''),
          (''Features:'', ''''), (''Location:'', ''''), (''Bluetooth:'', '''')])]"

text \<open>The battery type as claim C7 words it: the raw text with the matched capacity taken
  out (the first occurrence, nothing else removed), and the suffix when what remains
  contains \<open>non-removable\<close> in any case.\<close>

fun remove_first :: "string \<Rightarrow> string \<Rightarrow> string" where
  "remove_first sub [] = []"
| "remove_first sub (c # cs) =
     (if prefix sub (c # cs) then drop (length sub) (c # cs) else c # remove_first sub cs)"

definition claimed_battery_type :: "string \<Rightarrow> string" where
  "claimed_battery_type raw =
     (let rest = (case group1 capacity_rx raw of None \<Rightarrow> raw | Some c \<Rightarrow> remove_first c raw)
      in if sublist ''non-removable'' (lower rest) then rest @ '', Not user replaceable''
         else rest)"

text \<open>The card slot condition as claim C8 words it (the field is absent, or is \<open>no\<close> in any
  case), and as the code has it (absent, empty, or \<open>no\<close> in any case).\<close>

definition card_slot_absent_or_no :: "raw_data \<Rightarrow> bool" where
  "card_slot_absent_or_no data =
     (case specs data of
        None \<Rightarrow> True
      | Some sp \<Rightarrow>
          (case sp ''MEMORY'' of
             None \<Rightarrow> True
           | Some cat \<Rightarrow> (case cat ''Card slot'' of None \<Rightarrow> True | Some v \<Rightarrow> lower v = ''no'')))"

definition card_slot_absent_empty_or_no :: "raw_data \<Rightarrow> bool" where
  "card_slot_absent_empty_or_no data =
     (case specs data of
        None \<Rightarrow> True
      | Some sp \<Rightarrow>
          (case sp ''MEMORY'' of
             None \<Rightarrow> True
           | Some cat \<Rightarrow>
               (case cat ''Card slot'' of
                  None \<Rightarrow> True
                | Some v \<Rightarrow> v = '''' \<or> lower v = ''no'')))"

text \<open>The fixed schema: the eight section names, each with its labels, in the order of the
  dictionary literals.\<close>

definition schema :: "(string \<times> string list) list" where
  "schema =
     [(''Camera'',
         [''Rear:'', ''Flash:'', ''Front:'', ''Folded:'', ''Main camera:'', ''Second camera:'',
          ''Third camera:'', ''Specifications:'', ''Video recording:'']),
      (''Design'',
         [''Keys:'', ''Colors:'', ''Folded:'', ''Weight:'', ''Materials:'', ''Biometrics:'',
          ''Dimensions:'', ''Resistance:'']),
      (''Battery'', [''Type:'', ''Capacity:'', ''Charging:'', ''Max charge speed:'']),
      (''Display'',
         [''Size:'', ''Features:'', ''Resolution:'', ''Technology:'', ''Refresh rate:'',
          ''Screen-to-body:'', ''Peak brightness:'', ''Front cover display:'']),
      (''Cellular'',
         [''Technology:'', ''2G bands:'', ''3G bands:'', ''4G bands:'', ''5G bands:'',
          ''SIM type:'']),
      (''Hardware'',
         [''OS:'', ''GPU:'', ''RAM:'', ''Processor:'', ''Device type:'', ''Internal storage:'']),
      (''Multimedia'',
         [''Speakers:'', ''Headphones:'', ''Screen mirroring:'', ''Additional microphone(s):'']),
      (''Connectivity & Features'',
         [''USB:'', ''Other:'', ''Wi-Fi:'', ''Sensors:'', ''Features:'', ''Location:'',
          ''Bluetooth:''])]"

text \<open>The raw fields (category, key) each label is computed from. The three labels with a
  fixed text and \<open>Internal storage:\<close> are not listed.\<close>

definition main_camera_keys :: "(string \<times> string) list" where
  "main_camera_keys =
     [(''MAIN CAMERA'', ''Triple''), (''MAIN CAMERA'', ''Quad''), (''MAIN CAMERA'', ''Dual''),
      (''MAIN CAMERA'', ''Single'')]"

definition camera_reads :: "(string \<times> (string \<times> string) list) list" where
  "camera_reads =
     [(''Rear:'', main_camera_keys),
      (''Flash:'', [(''MAIN CAMERA'', ''Features'')]),
      (''Front:'', [(''SELFIE CAMERA'', ''Single''), (''SELFIE CAMERA'', ''Dual'')]),
      (''Folded:'', []),
      (''Main camera:'', main_camera_keys),
      (''Second camera:'', main_camera_keys),
      (''Third camera:'', main_camera_keys),
      (''Specifications:'', main_camera_keys),
      (''Video recording:'', [(''MAIN CAMERA'', ''Video'')])]"

definition design_reads :: "(string \<times> (string \<times> string) list) list" where
  "design_reads =
     [(''Colors:'', [(''MISC'', ''Colors'')]),
      (''Folded:'', [(''BODY'', ''Folded'')]),
      (''Weight:'', [(''BODY'', ''Weight'')]),
      (''Materials:'', [(''BODY'', ''Build'')]),
      (''Biometrics:'', [(''FEATURES'', ''Sensors'')]),
      (''Dimensions:'', [(''BODY'', ''Dimensions'')]),
      (''Resistance:'', [(''BODY'', ''  ''), (''BODY'', '''')])]"

definition battery_reads :: "(string \<times> (string \<times> string) list) list" where
  "battery_reads =
     [(''Type:'', [(''BATTERY'', ''Type'')]),
      (''Capacity:'', [(''BATTERY'', ''Type'')]),
      (''Charging:'', [(''BATTERY'', ''Charging'')]),
      (''Max charge speed:'', [(''BATTERY'', ''Charging'')])]"

definition display_reads :: "(string \<times> (string \<times> string) list) list" where
  "display_reads =
     [(''Size:'', [(''DISPLAY'', ''Size'')]),
      (''Features:'', [(''FEATURES'', ''Sensors'')]),
      (''Resolution:'', [(''DISPLAY'', ''Resolution'')]),
      (''Technology:'', [(''DISPLAY'', ''Type'')]),
      (''Refresh rate:'', [(''DISPLAY'', ''Type'')]),
      (''Screen-to-body:'', [(''DISPLAY'', ''Size'')]),
      (''Peak brightness:'', [(''DISPLAY'', ''Type'')]),
      (''Front cover display:'', [(''DISPLAY'', ''Secondary display'')])]"

definition cellular_reads :: "(string \<times> (string \<times> string) list) list" where
  "cellular_reads =
     [(''Technology:'', [(''NETWORK'', ''Technology'')]),
      (''2G bands:'', [(''NETWORK'', ''2G bands'')]),
      (''3G bands:'', [(''NETWORK'', ''3G bands'')]),
      (''4G bands:'', [(''NETWORK'', ''4G bands'')]),
      (''5G bands:'', [(''NETWORK'', ''5G bands'')]),
      (''SIM type:'', [(''BODY'', ''SIM'')])]"

definition hardware_reads :: "(string \<times> (string \<times> string) list) list" where
  "hardware_reads =
     [(''OS:'', [(''PLATFORM'', ''OS'')]),
      (''GPU:'', [(''PLATFORM'', ''GPU'')]),
      (''RAM:'', [(''MEMORY'', ''Internal'')]),
      (''Processor:'', [(''PLATFORM'', ''Chipset'')])]"

definition multimedia_reads :: "(string \<times> (string \<times> string) list) list" where
  "multimedia_reads =
     [(''Speakers:'', [(''SOUND'', ''Loudspeaker'')]),
      (''Headphones:'', [(''SOUND'', ''3.5mm jack'')]),
      (''Additional microphone(s):'', [(''SOUND'', ''  '')])]"

definition connectivity_reads :: "(string \<times> (string \<times> string) list) list" where
  "connectivity_reads =
     [(''USB:'', [(''COMMS'', ''USB'')]),
      (''Other:'', [(''COMMS'', ''NFC''), (''COMMS'', ''Infrared port'')]),
      (''Wi-Fi:'', [(''COMMS'', ''WLAN'')]),
      (''Sensors:'', [(''FEATURES'', ''Sensors'')]),
      (''Features:'', [(''COMMS'', ''USB'')]),
      (''Location:'', [(''COMMS'', ''Positioning'')]),
      (''Bluetooth:'', [(''COMMS'', ''Bluetooth'')])]"

definition reads :: "(string \<times> (string \<times> (string \<times> string) list) list) list" where
  "reads =
     [(''Camera'', camera_reads), (''Design'', design_reads), (''Battery'', battery_reads),
      (''Display'', display_reads), (''Cellular'', cellular_reads),
      (''Hardware'', hardware_reads), (''Multimedia'', multimedia_reads),
      (''Connectivity & Features'', connectivity_reads)]"

text \<open>\<open>absent data srcs\<close>: the lookup of every listed raw field gives the empty text (as it
  does when the field is absent).\<close>

definition absent :: "raw_data \<Rightarrow> (string \<times> string) list \<Rightarrow> bool" where
  "absent data srcs = list_all (\<lambda>(c, k). get_spec data c k '''' = '''') srcs"

text \<open>The text under a label of a section in the formatter's output for a raw record.\<close>

definition formatted_field :: "raw_data \<Rightarrow> string \<Rightarrow> string \<Rightarrow> string option" where
  "formatted_field data sec label =
     (case transform_gsmarena_to_formatted data of
        None \<Rightarrow> None
      | Some out \<Rightarrow> field out sec label)"

section \<open>The matcher finds the leftmost text of a pattern\<close>

lemma rmatch_Rep_iff:
  "t \<in> set (rmatch (Rep c n) s) \<longleftrightarrow> (\<exists>m. n \<le> length m \<and> list_all (in_class c) m \<and> s = m @ t)"
proof
  assume "t \<in> set (rmatch (Rep c n) s)"
  then obtain k where k: "n \<le> k" "k \<le> length (takeWhile (in_class c) s)" "t = drop k s"
    by auto
  have "take k s = take k (takeWhile (in_class c) s)"
    using k(2) by (metis takeWhile_eq_take take_take min.absorb1 min.commute)
  then have "list_all (in_class c) (take k s)"
    by (metis list_all_iff set_takeWhileD in_set_takeD)
  moreover have "k \<le> length s"
    using k(2) length_takeWhile_le[of "in_class c" s] by linarith
  ultimately show "\<exists>m. n \<le> length m \<and> list_all (in_class c) m \<and> s = m @ t"
    using k by (intro exI[of _ "take k s"]) auto
next
  assume "\<exists>m. n \<le> length m \<and> list_all (in_class c) m \<and> s = m @ t"
  then obtain m where m: "n \<le> length m" "list_all (in_class c) m" "s = m @ t" by blast
  have "takeWhile (in_class c) s = m @ takeWhile (in_class c) t"
    using m by (simp add: list_all_iff)
  then have "length m \<le> length (takeWhile (in_class c) s)" by simp
  moreover have "t = drop (length m) s" using m by simp
  ultimately have "length m \<in> {n ..< Suc (length (takeWhile (in_class c) s))}"
    and "t = drop (length m) s"
    using m(1) by auto
  then show "t \<in> set (rmatch (Rep c n) s)"
    unfolding rmatch.simps set_map set_rev set_upt by blast
qed

lemma rmatch_LitI_iff:
  "t \<in> set (rmatch (LitI w) s) \<longleftrightarrow> (\<exists>m. lower m = lower w \<and> s = m @ t)"
proof
  assume "t \<in> set (rmatch (LitI w) s)"
  then have "length w \<le> length s" "lower (take (length w) s) = lower w" "t = drop (length w) s"
    by (auto split: if_splits)
  then show "\<exists>m. lower m = lower w \<and> s = m @ t"
    by (intro exI[of _ "take (length w) s"]) simp
next
  assume "\<exists>m. lower m = lower w \<and> s = m @ t"
  then obtain m where m: "lower m = lower w" "s = m @ t" by blast
  then have "length m = length w" by (metis length_map lower_def)
  then show "t \<in> set (rmatch (LitI w) s)" using m by simp
qed

lemma rmatch_iff: "t \<in> set (rmatch r s) \<longleftrightarrow> (\<exists>m. m \<in> lang r \<and> s = m @ t)"
proof (induction r arbitrary: s t)
  case (Lit w)
  show ?case by (auto simp: prefix_def)
next
  case (LitI w)
  show ?case using rmatch_LitI_iff[of t w s] by simp
next
  case (Rep c n)
  show ?case using rmatch_Rep_iff[of t c n s] by simp
next
  case (Seq a b)
  show ?case
  proof
    assume "t \<in> set (rmatch (Seq a b) s)"
    then obtain u where "u \<in> set (rmatch a s)" "t \<in> set (rmatch b u)" by auto
    then obtain m1 m2 where "m1 \<in> lang a" "s = m1 @ u" "m2 \<in> lang b" "u = m2 @ t"
      using Seq.IH by blast
    then show "\<exists>m. m \<in> lang (Seq a b) \<and> s = m @ t"
      by (intro exI[of _ "m1 @ m2"]) auto
  next
    assume "\<exists>m. m \<in> lang (Seq a b) \<and> s = m @ t"
    then obtain m1 m2 where m: "m1 \<in> lang a" "m2 \<in> lang b" "s = (m1 @ m2) @ t" by auto
    then have "m2 @ t \<in> set (rmatch a s)" using Seq.IH(1)[of "m2 @ t" s] by auto
    moreover have "t \<in> set (rmatch b (m2 @ t))" using Seq.IH(2) m(2) by blast
    ultimately show "t \<in> set (rmatch (Seq a b) s)" by auto
  qed
next
  case (Alt a b)
  then show ?case by auto
next
  case (Opt a)
  then show ?case by auto
qed

lemma pieces_iff:
  "ps \<in> set (pieces rs s) \<longleftrightarrow> texts_of rs ps \<and> prefix (concat ps) s"
proof (induction rs arbitrary: s ps)
  case Nil
  show ?case by (auto simp: texts_of_def)
next
  case (Cons r rs)
  show ?case
  proof
    assume "ps \<in> set (pieces (r # rs) s)"
    then obtain t qs where t: "t \<in> set (rmatch r s)" "qs \<in> set (pieces rs t)"
      "ps = take (length s - length t) s # qs" by auto
    from t(1) obtain m where m: "m \<in> lang r" "s = m @ t" using rmatch_iff by blast
    have "texts_of rs qs" "prefix (concat qs) t" using Cons.IH t(2) by auto
    with m t(3) show "texts_of (r # rs) ps \<and> prefix (concat ps) s"
      by (auto simp: texts_of_def)
  next
    assume a: "texts_of (r # rs) ps \<and> prefix (concat ps) s"
    then obtain p qs where p: "ps = p # qs" "p \<in> lang r" "texts_of rs qs"
      by (auto simp: texts_of_def list_all2_Cons2)
    from a p(1) obtain z where z: "s = p @ concat qs @ z" by (auto simp: prefix_def)
    then have "concat qs @ z \<in> set (rmatch r s)" using rmatch_iff p(2) by blast
    moreover have "qs \<in> set (pieces rs (concat qs @ z))" using Cons.IH p(3) by simp
    moreover have "take (length s - length (concat qs @ z)) s = p" using z by simp
    ultimately show "ps \<in> set (pieces (r # rs) s)" using p(1) by force
  qed
qed

lemma pieces_Nil_iff: "pieces rs (drop i s) = [] \<longleftrightarrow> \<not> occurs_at rs s i"
proof -
  have "pieces rs (drop i s) = [] \<longleftrightarrow> (\<forall>ps. ps \<notin> set (pieces rs (drop i s)))"
    by (cases "pieces rs (drop i s)") auto
  then show ?thesis by (simp add: pieces_iff occurs_at_def)
qed

lemma search_None_iff: "search rs s = None \<longleftrightarrow> (\<forall>i\<le>length s. \<not> occurs_at rs s i)"
proof (induction s)
  case Nil
  show ?case using pieces_Nil_iff[of rs 0 "[]"] by (auto split: list.splits)
next
  case (Cons c cs)
  have "(\<forall>i\<le>length (c # cs). \<not> occurs_at rs (c # cs) i) \<longleftrightarrow>
        \<not> occurs_at rs (c # cs) 0 \<and> (\<forall>i\<le>length cs. \<not> occurs_at rs cs i)"
    (is "?L \<longleftrightarrow> ?R")
  proof
    assume l: ?L
    have "\<not> occurs_at rs cs i" if "i \<le> length cs" for i
      using l[rule_format, of "Suc i"] that by (simp add: occurs_at_def)
    with l show ?R by auto
  next
    assume r: ?R
    show ?L
    proof (intro allI impI)
      fix i assume "i \<le> length (c # cs)"
      then show "\<not> occurs_at rs (c # cs) i"
        using r by (cases i) (auto simp: occurs_at_def)
    qed
  qed
  moreover have "pieces rs (c # cs) = [] \<longleftrightarrow> \<not> occurs_at rs (c # cs) 0"
    using pieces_Nil_iff[of rs 0 "c # cs"] by simp
  ultimately show ?case using Cons.IH by (auto split: list.splits)
qed

lemma search_Some_leftmost:
  "search rs s = Some ps \<Longrightarrow>
     \<exists>i\<le>length s. texts_of rs ps \<and> prefix (concat ps) (drop i s) \<and> (\<forall>j<i. \<not> occurs_at rs s j)"
proof (induction s)
  case Nil
  then have "ps \<in> set (pieces rs [])" by (auto split: list.splits)
  then show ?case by (simp add: pieces_iff)
next
  case (Cons c cs)
  show ?case
  proof (cases "pieces rs (c # cs)")
    case Nil
    then have "search rs cs = Some ps" using Cons.prems by simp
    then obtain i where i: "i \<le> length cs" "texts_of rs ps" "prefix (concat ps) (drop i cs)"
      "\<forall>j<i. \<not> occurs_at rs cs j" using Cons.IH by blast
    have n0: "\<not> occurs_at rs (c # cs) 0" using Nil pieces_Nil_iff[of rs 0 "c # cs"] by simp
    have "\<not> occurs_at rs (c # cs) j" if "j < Suc i" for j
      using that n0 i(4) by (cases j) (auto simp: occurs_at_def)
    then show ?thesis using i by (intro exI[of _ "Suc i"]) auto
  next
    case (Cons p qs)
    then have "ps = p" using Cons.prems by simp
    then have "ps \<in> set (pieces rs (c # cs))" using Cons by simp
    then show ?thesis by (intro exI[of _ 0]) (simp add: pieces_iff)
  qed
qed

section \<open>The lookup\<close>

lemma replace_from_two_spaces: "replace_from ''  '' [nbsp] 0 k = normalize_key k"
  by (induction k rule: normalize_key.induct) auto

lemma replace_two_spaces: "replace ''  '' [nbsp] k = normalize_key k"
  by (simp add: replace_def replace_from_two_spaces)

lemma get_spec_eq:
  "get_spec data category key dflt =
     (case specs data of
        None \<Rightarrow> dflt
      | Some sp \<Rightarrow>
          (case sp category of
             None \<Rightarrow> dflt
           | Some cat \<Rightarrow> (case cat (normalize_key key) of None \<Rightarrow> dflt | Some v \<Rightarrow> v)))"
  by (simp add: get_spec_def replace_two_spaces split: option.splits)

text \<open>
  Claim C3. For every record, category, key and default, \<open>get_spec\<close> replaces every two
  consecutive plain spaces of the key by one non-breaking space and returns the value
  stored under the category and the normalised key when both are present; when the
  record has no \<open>specs\<close>, or the category is absent, or the key is absent, it returns the
  default. It is a total function of its arguments: it never raises.
\<close>

theorem get_spec_lookup:
  "get_spec data category key dflt =
     (case specs data of
        None \<Rightarrow> dflt
      | Some sp \<Rightarrow>
          (case sp category of
             None \<Rightarrow> dflt
           | Some cat \<Rightarrow> (case cat (normalize_key key) of None \<Rightarrow> dflt | Some v \<Rightarrow> v)))"
  by (simp add: get_spec_def replace_two_spaces split: option.splits)

text \<open>At a record whose BODY category stores a value under the non-breaking space, the
  key of two plain spaces finds it.\<close>

theorem get_spec_lookup_witness:
  "get_spec \<lparr>url = ''u'', name = ''n'', image = None, highlights = [],
              specs = Some [''BODY'' \<mapsto> [[nbsp] \<mapsto> ''IP68'']]\<rparr> ''BODY'' ''  '' ''x'' = ''IP68''"
  using get_spec_lookup [of "\<lparr>url = ''u'', name = ''n'', image = None, highlights = [],
              specs = Some [''BODY'' \<mapsto> [[nbsp] \<mapsto> ''IP68'']]\<rparr>" "''BODY''" "''  ''" "''x''"]
  by simp

section \<open>The formatter returns a record\<close>

lemma split_chr_not_Nil: "split_chr sep s \<noteq> []"
  by (induction s) (auto split: list.splits)

lemma index0_split_chr: "index0 (split_chr sep s) = Some (takeWhile (\<lambda>c. c \<noteq> sep) s)"
  by (induction s) (auto simp: index0_def split: list.splits)

lemma camera_data_total: "\<exists>cam. camera_data data = Some cam"
  by (simp add: camera_data_def Let_def index0_split_chr)

lemma display_data_total: "\<exists>disp. display_data data = Some disp"
  by (simp add: display_data_def Let_def index0_split_chr)

lemma transform_total: "\<exists>out. transform_gsmarena_to_formatted data = Some out"
  using camera_data_total[of data] display_data_total[of data]
  by (auto simp: transform_gsmarena_to_formatted_def)

section \<open>A record without specs\<close>

lemma get_spec_empty: "specs data = Some Map.empty \<Longrightarrow> get_spec data c k d = d"
  by (simp add: get_spec_eq)

lemma search_Nil_eval:
  "group1 capacity_rx [] = None" "group0 capacity_rx [] = None"
  "group1 wired_speed_rx [] = None" "group1 wireless_speed_rx [] = None"
  "group1 refresh_rate_rx [] = None" "group1 s2b_rx [] = None" "group1 brightness_rx [] = None"
  "pieces storage_ram_rx [] = []" "group1 storage_rx [] = None" "group1 ram_rx [] = None"
  by (simp_all add: group1_def group0_def capacity_rx_def wired_speed_rx_def wireless_speed_rx_def
      refresh_rate_rx_def s2b_rx_def brightness_rx_def storage_ram_rx_def storage_rx_def ram_rx_def
      decimal_then_def size_gb_tb_def size_gb_def)

lemma camera_empty:
  "specs data = Some Map.empty \<Longrightarrow> camera_data data =
     Some [(''Rear:'', ''''), (''Flash:'', ''''), (''Front:'', ''''), (''Folded:'', ''''),
           (''Main camera:'', ''''), (''Second camera:'', ''''), (''Third camera:'', ''''),
           (''Specifications:'', ''''), (''Video recording:'', '''')]"
  by (simp add: camera_data_def main_cam_spec_def get_spec_empty py_or_def)

lemma battery_empty:
  "specs data = Some Map.empty \<Longrightarrow> battery_data data =
     [(''Type:'', ''''), (''Capacity:'', ''''), (''Charging:'', ''''), (''Max charge speed:'', '''')]"
  by (simp add: battery_data_def get_spec_empty battery_type_def type_info_def capacity_def
      max_charge_speed_def search_Nil_eval lower_def)

lemma display_empty:
  "specs data = Some Map.empty \<Longrightarrow> display_data data =
     Some [(''Size:'', ''''), (''Features:'', ''''), (''Resolution:'', ''''), (''Technology:'', ''''),
      (''Refresh rate:'', ''''), (''Screen-to-body:'', ''''), (''Peak brightness:'', ''''),
      (''Front cover display:'', '''')]"
  by (simp add: display_data_def get_spec_empty index0_def refresh_rate_def screen_to_body_def
      peak_brightness_def search_Nil_eval py_or_def strip_def strip_with_def)

lemma hardware_empty:
  "specs data = Some Map.empty \<Longrightarrow> hardware_data data =
     [(''OS:'', ''''), (''GPU:'', ''''), (''RAM:'', ''''), (''Processor:'', ''''),
      (''Device type:'', ''Smartphone''), (''Internal storage:'', '' (UFS), not expandable'')]"
  by (simp add: hardware_data_def get_spec_empty storage_ram_def search_Nil_eval
      internal_storage_def lower_def)

lemma others_empty:
  "specs data = Some Map.empty \<Longrightarrow> design_data data =
     [(''Keys:'', ''Right: Volume control, Lock/Unlock key''), (''Colors:'', ''''),
      (''Folded:'', ''''), (''Weight:'', ''''), (''Materials:'', ''''), (''Biometrics:'', ''''),
      (''Dimensions:'', ''''), (''Resistance:'', '''')]"
  "specs data = Some Map.empty \<Longrightarrow> cellular_data data =
     [(''Technology:'', ''''), (''2G bands:'', ''''), (''3G bands:'', ''''), (''4G bands:'', ''''),
      (''5G bands:'', ''''), (''SIM type:'', '''')]"
  "specs data = Some Map.empty \<Longrightarrow> multimedia_data data =
     [(''Speakers:'', ''''), (''Headphones:'', ''''), (''Screen mirroring:'', ''Wireless screen share''),
      (''Additional microphone(s):'', '''')]"
  "specs data = Some Map.empty \<Longrightarrow> connectivity_data data =
     [(''USB:'', ''''), (''Other:'', ''''), (''Wi-Fi:'', ''''), (''Sensors:'', ''''),
      (''Features:'', ''''), (''Location:'', ''''), (''Bluetooth:'', '''')]"
  by (simp_all add: design_data_def cellular_data_def multimedia_data_def connectivity_data_def
      other_features_def get_spec_empty py_or_def lower_def)

text \<open>
  Claim C1, as stated, fails: at a record whose specs mapping is empty the formatter
  returns a record, and not every text in it is empty.
\<close>

theorem empty_specs_not_all_empty:
  "map_option all_fields_empty
     (transform_gsmarena_to_formatted
        \<lparr>url = ''u'', name = ''n'', image = None, highlights = [], specs = Some Map.empty\<rparr>)
   = Some False"
  by (simp add: transform_gsmarena_to_formatted_def camera_empty display_empty others_empty
      battery_empty hardware_empty all_fields_empty_def)

text \<open>
  Claim C1, amended. For every raw record whose specs mapping is empty the formatter does
  not raise and returns the record in which every text is empty, except the fixed texts
  of \<open>Keys:\<close>, \<open>Device type:\<close> and \<open>Screen mirroring:\<close>, and \<open>Internal storage:\<close>, which
  is \<open>" (UFS), not expandable"\<close>.
\<close>

theorem empty_specs_output:
  "specs data = Some Map.empty \<Longrightarrow>
     transform_gsmarena_to_formatted data = Some empty_specs_formatted"
  by (simp add: transform_gsmarena_to_formatted_def camera_empty display_empty others_empty
      battery_empty hardware_empty empty_specs_formatted_def)

theorem empty_specs_output_witness:
  "specs \<lparr>url = ''https://www.gsmarena.com/x.php'', name = ''X'', image = None,
           highlights = [], specs = Some Map.empty\<rparr> = Some Map.empty \<and>
   transform_gsmarena_to_formatted
     \<lparr>url = ''https://www.gsmarena.com/x.php'', name = ''X'', image = None,
        highlights = [], specs = Some Map.empty\<rparr> = Some empty_specs_formatted"
  using empty_specs_output [of "\<lparr>url = ''https://www.gsmarena.com/x.php'', name = ''X'',
     image = None, highlights = [], specs = Some Map.empty\<rparr>"]
  by simp

section \<open>What a search returns\<close>

lemma search_None_no_match: "search rs s = None \<longleftrightarrow> no_match rs s"
  by (simp add: search_None_iff no_match_def)

lemma search_Some_first_match: "search rs s = Some ps \<Longrightarrow> first_match rs s ps"
  using search_Some_leftmost[of rs s ps] by (simp add: first_match_def)

lemma group1_None: "group1 (g # rs) s = None \<longleftrightarrow> no_match (g # rs) s"
proof -
  have "search (g # rs) s \<noteq> Some []"
  proof
    assume "search (g # rs) s = Some []"
    then have "first_match (g # rs) s []" by (rule search_Some_first_match)
    then show False by (simp add: first_match_def texts_of_def)
  qed
  then show ?thesis
    by (auto simp: group1_def search_None_no_match[symmetric] split: option.splits list.splits)
qed

lemma group1_Some: "group1 (g # rs) s = Some x \<Longrightarrow> \<exists>ws. first_match (g # rs) s (x # ws)"
  by (auto simp: group1_def split: option.splits list.splits dest: search_Some_first_match)

lemma group1_single: "group1 [g] s = Some x \<Longrightarrow> first_match [g] s [x]"
proof -
  assume "group1 [g] s = Some x"
  then obtain ws where w: "first_match [g] s (x # ws)" using group1_Some by blast
  then have "ws = []" by (auto simp: first_match_def texts_of_def)
  with w show ?thesis by simp
qed

lemma group1_cases:
  "(case group1 (g # rs) s of
      None \<Rightarrow> no_match (g # rs) s
    | Some x \<Rightarrow> \<exists>ws. first_match (g # rs) s (x # ws))"
  using group1_None[of g rs s] group1_Some[of g rs s] by (auto split: option.splits)

lemma contains_iff_sublist: "contains sub s \<longleftrightarrow> sublist sub s"
  by (induction s) (auto simp: sublist_Cons_right)

section \<open>Display and charging\<close>

lemma group1_no_match: "no_match rs s \<Longrightarrow> group1 rs s = None"
  by (simp add: group1_def search_None_no_match[symmetric])

lemma display_example_eval:
  "group1 refresh_rate_rx ''AMOLED, 120Hz, 1200 nits (peak)'' = Some ''120Hz''"
  "group1 brightness_rx ''AMOLED, 120Hz, 1200 nits (peak)'' = Some ''1200''"
  by code_simp+

lemma display_data_fields:
  "\<exists>disp. display_data data = Some disp \<and>
     map_of disp ''Refresh rate:'' = Some (refresh_rate (get_spec data ''DISPLAY'' ''Type'' '''')) \<and>
     map_of disp ''Peak brightness:'' = Some (peak_brightness (get_spec data ''DISPLAY'' ''Type'' ''''))"
  by (simp add: display_data_def Let_def index0_split_chr)

text \<open>
  Claim C9. For every raw record, with \<open>t\<close> the text at DISPLAY / Type: the Display section
  is returned (no error); \<open>Refresh rate:\<close> is group 1 of the first match of \<open>(\d+Hz)\<close> in
  \<open>t\<close>, and \<open>Peak brightness:\<close> is group 1 of the first match of
  \<open>(\d+)\s*nits\s*\(peak\)\<close> (case-insensitive) followed by \<open>" cd/m2 (nit)"\<close>; each of the two
  depends on its own pattern only, and is the empty text when its pattern has no match
  in \<open>t\<close>. For \<open>t = "AMOLED, 120Hz, 1200 nits (peak)"\<close> they are \<open>"120Hz"\<close> and
  \<open>"1200 cd/m2 (nit)"\<close>.
\<close>

theorem display_sub_extraction:
  "let t = get_spec data ''DISPLAY'' ''Type'' '''' in
   \<exists>disp. display_data data = Some disp \<and>
     map_of disp ''Refresh rate:'' =
       Some (case group1 refresh_rate_rx t of None \<Rightarrow> '''' | Some g \<Rightarrow> g) \<and>
     map_of disp ''Peak brightness:'' =
       Some (case group1 brightness_rx t of None \<Rightarrow> '''' | Some g \<Rightarrow> g @ '' cd/m2 (nit)'') \<and>
     (case group1 refresh_rate_rx t of
        None \<Rightarrow> no_match refresh_rate_rx t
      | Some g \<Rightarrow> first_match refresh_rate_rx t [g]) \<and>
     (case group1 brightness_rx t of
        None \<Rightarrow> no_match brightness_rx t
      | Some g \<Rightarrow> \<exists>ws. first_match brightness_rx t (g # ws)) \<and>
     (no_match refresh_rate_rx t \<longrightarrow> map_of disp ''Refresh rate:'' = Some '''') \<and>
     (no_match brightness_rx t \<longrightarrow> map_of disp ''Peak brightness:'' = Some '''') \<and>
     (t = ''AMOLED, 120Hz, 1200 nits (peak)'' \<longrightarrow>
        map_of disp ''Refresh rate:'' = Some ''120Hz'' \<and>
        map_of disp ''Peak brightness:'' = Some ''1200 cd/m2 (nit)'')"
proof -
  define t where "t = get_spec data ''DISPLAY'' ''Type'' ''''"
  obtain disp where d: "display_data data = Some disp"
    "map_of disp ''Refresh rate:'' = Some (refresh_rate t)"
    "map_of disp ''Peak brightness:'' = Some (peak_brightness t)"
    using display_data_fields[of data] t_def by blast
  have r1: "case group1 refresh_rate_rx t of
        None \<Rightarrow> no_match refresh_rate_rx t
      | Some g \<Rightarrow> first_match refresh_rate_rx t [g]"
    unfolding refresh_rate_rx_def
    using group1_None[of _ "[]" t] group1_single[of _ t]
    by (auto split: option.splits)
  have r2: "case group1 brightness_rx t of
        None \<Rightarrow> no_match brightness_rx t
      | Some g \<Rightarrow> \<exists>ws. first_match brightness_rx t (g # ws)"
    unfolding brightness_rx_def by (rule group1_cases)
  have n1: "no_match refresh_rate_rx t \<Longrightarrow> refresh_rate t = ''''"
    by (simp add: refresh_rate_def group1_no_match)
  have n2: "no_match brightness_rx t \<Longrightarrow> peak_brightness t = ''''"
    by (simp add: peak_brightness_def group1_no_match)
  have ex: "t = ''AMOLED, 120Hz, 1200 nits (peak)'' \<Longrightarrow>
      refresh_rate t = ''120Hz'' \<and> peak_brightness t = ''1200 cd/m2 (nit)''"
    by (simp add: refresh_rate_def peak_brightness_def display_example_eval)
  show ?thesis
    unfolding Let_def t_def[symmetric]
    using d r1 r2 n1 n2 ex
    by (intro exI[of _ disp]) (simp add: refresh_rate_def peak_brightness_def)
qed

theorem display_sub_extraction_witness:
  "\<exists>disp. display_data \<lparr>url = ''u'', name = ''n'', image = None, highlights = [],
       specs = Some [''DISPLAY'' \<mapsto> [''Type'' \<mapsto> ''AMOLED, 120Hz, 1200 nits (peak)'']]\<rparr> = Some disp \<and>
     map_of disp ''Refresh rate:'' = Some ''120Hz'' \<and>
     map_of disp ''Peak brightness:'' = Some ''1200 cd/m2 (nit)''"
proof -
  have g: "get_spec \<lparr>url = ''u'', name = ''n'', image = None, highlights = [],
       specs = Some [''DISPLAY'' \<mapsto> [''Type'' \<mapsto> ''AMOLED, 120Hz, 1200 nits (peak)'']]\<rparr>
       ''DISPLAY'' ''Type'' '''' = ''AMOLED, 120Hz, 1200 nits (peak)''"
    by (simp add: get_spec_eq)
  show ?thesis
    using display_sub_extraction [of "\<lparr>url = ''u'', name = ''n'', image = None, highlights = [],
       specs = Some [''DISPLAY'' \<mapsto> [''Type'' \<mapsto> ''AMOLED, 120Hz, 1200 nits (peak)'']]\<rparr>"]
    unfolding Let_def g by blast
qed

lemma charging_example_eval:
  "group1 wired_speed_rx ''45W wired, 15W wireless'' = Some ''45W''"
  "group1 wireless_speed_rx ''45W wired, 15W wireless'' = Some ''15W''"
  by code_simp+

lemma max_charge_speed_eq:
  "max_charge_speed c =
     (case group1 wired_speed_rx c of None \<Rightarrow> [] | Some x \<Rightarrow> ''Wired: '' @ x) @
     (case group1 wireless_speed_rx c of None \<Rightarrow> [] | Some y \<Rightarrow> ''Wireless: '' @ y)"
  by (simp add: max_charge_speed_def split: option.splits)

text \<open>
  Claim C10. For every raw record, with \<open>c\<close> the text at BATTERY / Charging:
  \<open>Max charge speed:\<close> is \<open>"Wired: x"\<close>, for \<open>x\<close> group 1 of the first match of
  \<open>(\d+(\.\d+)?W)\s+wired\<close>, directly followed by \<open>"Wireless: y"\<close>, for \<open>y\<close> group 1 of the
  first match of \<open>(\d+(\.\d+)?W)\s+wireless\<close> (both case-insensitive), with nothing between
  the two; a part whose pattern has no match in \<open>c\<close> is left out, and the field is empty
  when neither has one. For \<open>c = "45W wired, 15W wireless"\<close> it is
  \<open>"Wired: 45WWireless: 15W"\<close>.
\<close>

theorem max_charge_speed_concat:
  "let c = get_spec data ''BATTERY'' ''Charging'' '''' in
     map_of (battery_data data) ''Max charge speed:'' =
       Some ((case group1 wired_speed_rx c of None \<Rightarrow> '''' | Some x \<Rightarrow> ''Wired: '' @ x) @
             (case group1 wireless_speed_rx c of None \<Rightarrow> '''' | Some y \<Rightarrow> ''Wireless: '' @ y)) \<and>
     (case group1 wired_speed_rx c of
        None \<Rightarrow> no_match wired_speed_rx c
      | Some x \<Rightarrow> \<exists>ws. first_match wired_speed_rx c (x # ws)) \<and>
     (case group1 wireless_speed_rx c of
        None \<Rightarrow> no_match wireless_speed_rx c
      | Some y \<Rightarrow> \<exists>ws. first_match wireless_speed_rx c (y # ws)) \<and>
     (no_match wired_speed_rx c \<and> no_match wireless_speed_rx c \<longrightarrow>
        map_of (battery_data data) ''Max charge speed:'' = Some '''') \<and>
     (c = ''45W wired, 15W wireless'' \<longrightarrow>
        map_of (battery_data data) ''Max charge speed:'' = Some ''Wired: 45WWireless: 15W'')"
proof -
  define c where "c = get_spec data ''BATTERY'' ''Charging'' ''''"
  have f: "map_of (battery_data data) ''Max charge speed:'' = Some (max_charge_speed c)"
    by (simp add: battery_data_def Let_def c_def)
  have w1: "case group1 wired_speed_rx c of
        None \<Rightarrow> no_match wired_speed_rx c
      | Some x \<Rightarrow> \<exists>ws. first_match wired_speed_rx c (x # ws)"
    unfolding wired_speed_rx_def by (rule group1_cases)
  have w2: "case group1 wireless_speed_rx c of
        None \<Rightarrow> no_match wireless_speed_rx c
      | Some x \<Rightarrow> \<exists>ws. first_match wireless_speed_rx c (x # ws)"
    unfolding wireless_speed_rx_def by (rule group1_cases)
  have n: "no_match wired_speed_rx c \<and> no_match wireless_speed_rx c \<Longrightarrow> max_charge_speed c = ''''"
    by (simp add: max_charge_speed_eq group1_no_match)
  have ex: "c = ''45W wired, 15W wireless'' \<Longrightarrow> max_charge_speed c = ''Wired: 45WWireless: 15W''"
    by (simp add: max_charge_speed_eq charging_example_eval)
  show ?thesis
    unfolding Let_def c_def[symmetric]
    using f w1 w2 n ex by (simp add: max_charge_speed_eq)
qed

theorem max_charge_speed_concat_witness:
  "map_of (battery_data \<lparr>url = ''u'', name = ''n'', image = None, highlights = [],
       specs = Some [''BATTERY'' \<mapsto> [''Charging'' \<mapsto> ''45W wired, 15W wireless'']]\<rparr>)
     ''Max charge speed:'' = Some ''Wired: 45WWireless: 15W''"
proof -
  have g: "get_spec \<lparr>url = ''u'', name = ''n'', image = None, highlights = [],
       specs = Some [''BATTERY'' \<mapsto> [''Charging'' \<mapsto> ''45W wired, 15W wireless'']]\<rparr>
       ''BATTERY'' ''Charging'' '''' = ''45W wired, 15W wireless''"
    by (simp add: get_spec_eq)
  show ?thesis
    using max_charge_speed_concat [of "\<lparr>url = ''u'', name = ''n'', image = None, highlights = [],
       specs = Some [''BATTERY'' \<mapsto> [''Charging'' \<mapsto> ''45W wired, 15W wireless'']]\<rparr>"]
    unfolding Let_def g by blast
qed

section \<open>The rear camera\<close>

lemma split_chr_Cons: "\<exists>rest. split_chr sep s = takeWhile (\<lambda>c. c \<noteq> sep) s # rest"
  by (induction s) (auto split: list.splits)

lemma main_cam_spec_find:
  "main_cam_spec data =
     (case find (\<lambda>v. v \<noteq> [])
             [get_spec data ''MAIN CAMERA'' ''Triple'' '''', get_spec data ''MAIN CAMERA'' ''Quad'' '''',
              get_spec data ''MAIN CAMERA'' ''Dual'' '''', get_spec data ''MAIN CAMERA'' ''Single'' ''''] of
        None \<Rightarrow> '''' | Some v \<Rightarrow> v)"
  by (simp add: main_cam_spec_def py_or_def)

lemma camera_rear_main:
  "\<exists>cam. camera_data data = Some cam \<and>
     map_of cam ''Rear:'' = Some (takeWhile (\<lambda>c. c \<noteq> CHR 0x0A) (main_cam_spec data)) \<and>
     map_of cam ''Main camera:'' = Some (strip (takeWhile (\<lambda>c. c \<noteq> CHR 0x0A) (main_cam_spec data)))"
proof (cases "main_cam_spec data = []")
  case True
  then show ?thesis by (simp add: camera_data_def Let_def strip_def strip_with_def)
next
  case False
  obtain rest where r: "split_chr CHR 0x0A (main_cam_spec data) =
      takeWhile (\<lambda>c. c \<noteq> CHR 0x0A) (main_cam_spec data) # rest"
    using split_chr_Cons by blast
  show ?thesis using False by (simp add: camera_data_def Let_def index0_def r)
qed

lemma camera_example_eval:
  "split_chr CHR 0x0A ''50 MP, f/1.8, 24mm (wide)'' = [''50 MP, f/1.8, 24mm (wide)'']"
  "strip ''50 MP, f/1.8, 24mm (wide)'' = ''50 MP, f/1.8, 24mm (wide)''"
  "specs_str ''50 MP, f/1.8, 24mm (wide)'' = [''Aperture size: F/1.8'', ''Focal Length: 24mm'']"
  "join '' '' [''Aperture size: F/1.8'', ''Focal Length: 24mm''] =
     ''Aperture size: F/1.8 Focal Length: 24mm''"
  by code_simp+

text \<open>
  Claim C6, as stated, fails: the order in which the keys are tried is not most-plural
  first, and two non-empty texts at Dual and Single do not make the fields derive from
  Dual. At a record with a text under each of the four keys the fields are read from the
  text at Triple: not from the one at Quad, the most plural, and not from the one at Dual.
\<close>

theorem triple_before_quad:
  "main_cam_spec
     \<lparr>url = ''u'', name = ''n'', image = None, highlights = [],
        specs = Some [''MAIN CAMERA'' \<mapsto>
          [''Triple'' \<mapsto> ''50 MP, f/1.8, 24mm (wide)'', ''Quad'' \<mapsto> ''108 MP, f/1.9'',
           ''Dual'' \<mapsto> ''13 MP, f/2.2'', ''Single'' \<mapsto> ''8 MP'']]\<rparr> =
     ''50 MP, f/1.8, 24mm (wide)'' \<and>
   camera_data
     \<lparr>url = ''u'', name = ''n'', image = None, highlights = [],
        specs = Some [''MAIN CAMERA'' \<mapsto>
          [''Triple'' \<mapsto> ''50 MP, f/1.8, 24mm (wide)'', ''Quad'' \<mapsto> ''108 MP, f/1.9'',
           ''Dual'' \<mapsto> ''13 MP, f/2.2'', ''Single'' \<mapsto> ''8 MP'']]\<rparr> =
     Some [(''Rear:'', ''50 MP, f/1.8, 24mm (wide)''),
           (''Flash:'', ''''),
           (''Front:'', ''''),
           (''Folded:'', ''''),
           (''Main camera:'', ''50 MP, f/1.8, 24mm (wide)''),
           (''Second camera:'', ''''),
           (''Third camera:'', ''''),
           (''Specifications:'', ''Aperture size: F/1.8 Focal Length: 24mm''),
           (''Video recording:'', '''')]"
proof -
  let ?d = "\<lparr>url = ''u'', name = ''n'', image = None, highlights = [],
        specs = Some [''MAIN CAMERA'' \<mapsto>
          [''Triple'' \<mapsto> ''50 MP, f/1.8, 24mm (wide)'', ''Quad'' \<mapsto> ''108 MP, f/1.9'',
           ''Dual'' \<mapsto> ''13 MP, f/2.2'', ''Single'' \<mapsto> ''8 MP'']]\<rparr>"
  have m: "main_cam_spec ?d = ''50 MP, f/1.8, 24mm (wide)''"
    by (simp add: main_cam_spec_def get_spec_eq py_or_def)
  have g: "get_spec ?d ''MAIN CAMERA'' ''Features'' '''' = ''''"
    "get_spec ?d ''MAIN CAMERA'' ''Video'' '''' = ''''"
    "get_spec ?d ''SELFIE CAMERA'' ''Single'' '''' = ''''"
    "get_spec ?d ''SELFIE CAMERA'' ''Dual'' '''' = ''''"
    by (simp_all add: get_spec_eq)
  have c: "camera_data ?d =
     Some [(''Rear:'', ''50 MP, f/1.8, 24mm (wide)''),
           (''Flash:'', ''''),
           (''Front:'', ''''),
           (''Folded:'', ''''),
           (''Main camera:'', ''50 MP, f/1.8, 24mm (wide)''),
           (''Second camera:'', ''''),
           (''Third camera:'', ''''),
           (''Specifications:'', ''Aperture size: F/1.8 Focal Length: 24mm''),
           (''Video recording:'', '''')]"
    unfolding camera_data_def Let_def m g
    by (simp add: camera_example_eval index0_def py_or_def)
  from m c show ?thesis by (rule conjI)
qed

text \<open>
  Claim C6, amended. For every raw record, the keys of MAIN CAMERA are tried in the fixed
  order Triple, Quad, Dual, Single, and the text the rear camera fields are read from is
  the first non-empty one (empty when all four are empty), an empty text at an earlier key
  being skipped: \<open>Rear:\<close> is the first line of that text and \<open>Main camera:\<close> is that line
  stripped. The text at Triple is taken before the one at Quad. When Dual is not empty
  the text is never the one at Single: it is the one at Dual when Triple and Quad are
  empty, else the one at Triple or Quad, and it is the same for every record with the same
  three texts, whatever stands at Single.
\<close>

theorem rear_camera_fallback:
  "let triple = get_spec data ''MAIN CAMERA'' ''Triple'' '''';
       quad = get_spec data ''MAIN CAMERA'' ''Quad'' '''';
       dual = get_spec data ''MAIN CAMERA'' ''Dual'' '''';
       single = get_spec data ''MAIN CAMERA'' ''Single'' ''''
   in main_cam_spec data =
        (case find (\<lambda>v. v \<noteq> []) [triple, quad, dual, single] of None \<Rightarrow> '''' | Some v \<Rightarrow> v) \<and>
      main_cam_spec data =
        (if triple \<noteq> [] then triple else if quad \<noteq> [] then quad
         else if dual \<noteq> [] then dual else single) \<and>
      (\<exists>cam. camera_data data = Some cam \<and>
         map_of cam ''Rear:'' = Some (takeWhile (\<lambda>c. c \<noteq> CHR 0x0A) (main_cam_spec data)) \<and>
         map_of cam ''Main camera:'' =
           Some (strip (takeWhile (\<lambda>c. c \<noteq> CHR 0x0A) (main_cam_spec data)))) \<and>
      (triple = [] \<and> quad = [] \<and> dual \<noteq> [] \<longrightarrow> main_cam_spec data = dual) \<and>
      (dual \<noteq> [] \<longrightarrow>
         main_cam_spec data \<in> {triple, quad, dual} \<and>
         (\<forall>data'. get_spec data' ''MAIN CAMERA'' ''Triple'' '''' = triple \<and>
                  get_spec data' ''MAIN CAMERA'' ''Quad'' '''' = quad \<and>
                  get_spec data' ''MAIN CAMERA'' ''Dual'' '''' = dual \<longrightarrow>
                  main_cam_spec data' = main_cam_spec data))"
  unfolding Let_def
  using main_cam_spec_find[of data] camera_rear_main[of data]
  by (auto simp: main_cam_spec_def py_or_def)

theorem rear_camera_fallback_witness:
  "main_cam_spec \<lparr>url = ''u'', name = ''n'', image = None, highlights = [],
       specs = Some [''MAIN CAMERA'' \<mapsto> [''Dual'' \<mapsto> ''50 MP (wide)'', ''Single'' \<mapsto> ''13 MP'']]\<rparr>
   = ''50 MP (wide)''"
proof -
  have g: "get_spec \<lparr>url = ''u'', name = ''n'', image = None, highlights = [],
       specs = Some [''MAIN CAMERA'' \<mapsto> [''Dual'' \<mapsto> ''50 MP (wide)'', ''Single'' \<mapsto> ''13 MP'']]\<rparr>
       ''MAIN CAMERA'' ''Triple'' '''' = []"
    "get_spec \<lparr>url = ''u'', name = ''n'', image = None, highlights = [],
       specs = Some [''MAIN CAMERA'' \<mapsto> [''Dual'' \<mapsto> ''50 MP (wide)'', ''Single'' \<mapsto> ''13 MP'']]\<rparr>
       ''MAIN CAMERA'' ''Quad'' '''' = []"
    "get_spec \<lparr>url = ''u'', name = ''n'', image = None, highlights = [],
       specs = Some [''MAIN CAMERA'' \<mapsto> [''Dual'' \<mapsto> ''50 MP (wide)'', ''Single'' \<mapsto> ''13 MP'']]\<rparr>
       ''MAIN CAMERA'' ''Dual'' '''' = ''50 MP (wide)''"
    by (simp_all add: get_spec_eq)
  show ?thesis
    using rear_camera_fallback [of "\<lparr>url = ''u'', name = ''n'', image = None, highlights = [],
       specs = Some [''MAIN CAMERA'' \<mapsto> [''Dual'' \<mapsto> ''50 MP (wide)'', ''Single'' \<mapsto> ''13 MP'']]\<rparr>"]
    unfolding Let_def g by simp
qed

section \<open>The battery\<close>

lemma digit_not_space: "is_digit c \<Longrightarrow> \<not> is_space c"
  by (auto simp: is_digit_def is_space_def)

lemma strip_capacity_text:
  assumes "c \<in> lang (Seq (Rep Digit 1) (Seq (Rep Space 0) (Lit ''mAh'')))"
  shows "strip c = c"
proof -
  obtain d sp where c: "c = d @ sp @ ''mAh''" "1 \<le> length d" "list_all (in_class Digit) d"
    using assms by auto
  then obtain x xs where d: "d = x # xs" by (cases d) auto
  have "\<not> is_space x" using c(3) d digit_not_space by simp
  then have 1: "dropWhile is_space c = c" using c(1) d by simp
  have "rev c = CHR ''h'' # (CHR ''A'' # CHR ''m'' # rev sp @ rev d)" using c(1) by simp
  moreover have "\<not> is_space CHR ''h''" by (simp add: is_space_def)
  ultimately have 2: "dropWhile is_space (rev c) = rev c" by simp
  show ?thesis by (simp add: strip_def strip_with_def 1 2)
qed

lemma search_single: "search [g] s = Some ps \<Longrightarrow> \<exists>x. ps = [x] \<and> first_match [g] s [x]"
proof -
  assume a: "search [g] s = Some ps"
  then have f: "first_match [g] s ps" by (rule search_Some_first_match)
  then have "length ps = 1" by (auto simp: first_match_def texts_of_def dest: list_all2_lengthD)
  then obtain x where "ps = [x]" by (cases ps) auto
  with f show ?thesis by simp
qed

lemma group0_single: "group0 [g] s = group1 [g] s"
proof (cases "search [g] s")
  case None
  then show ?thesis by (simp add: group0_def group1_def)
next
  case (Some ps)
  then obtain x where "ps = [x]" using search_single by blast
  with Some show ?thesis by (simp add: group0_def group1_def)
qed

lemma capacity_eq:
  "capacity raw = (case group1 capacity_rx raw of None \<Rightarrow> '''' | Some c \<Rightarrow> c)"
proof (cases "group1 capacity_rx raw")
  case None
  then show ?thesis by (simp add: capacity_def)
next
  case (Some c)
  then have "first_match capacity_rx raw [c]"
    unfolding capacity_rx_def by (rule group1_single)
  then have "c \<in> lang (Seq (Rep Digit 1) (Seq (Rep Space 0) (Lit ''mAh'')))"
    unfolding capacity_rx_def first_match_def texts_of_def by auto
  then have "strip c = c" by (rule strip_capacity_text)
  with Some show ?thesis by (simp add: capacity_def)
qed

lemma battery_type_eq:
  "battery_type raw =
     (let rest = (case group1 capacity_rx raw of
                    None \<Rightarrow> raw
                  | Some c \<Rightarrow> strip_chars '', '' (replace c '''' raw))
      in if sublist ''non-removable'' (lower rest) then rest @ '', Not user replaceable''
         else rest)"
proof -
  have "group0 capacity_rx raw = group1 capacity_rx raw"
    unfolding capacity_rx_def by (rule group0_single)
  then show ?thesis
    by (simp add: battery_type_def type_info_def contains_iff_sublist Let_def)
qed

lemma battery_example_eval:
  "group1 capacity_rx ''Li-Ion 5000 mAh, non-removable'' = Some ''5000 mAh''"
  "strip_chars '', '' (replace ''5000 mAh'' '''' ''Li-Ion 5000 mAh, non-removable'')
     = ''Li-Ion , non-removable''"
  "contains ''non-removable'' (lower ''Li-Ion , non-removable'')"
  by code_simp+

lemma battery_counter_eval:
  "group1 capacity_rx ''5000 mAh, Li-Po'' = Some ''5000 mAh''"
  "strip_chars '', '' (replace ''5000 mAh'' '''' ''5000 mAh, Li-Po'') = ''Li-Po''"
  "remove_first ''5000 mAh'' ''5000 mAh, Li-Po'' = '', Li-Po''"
  "\<not> contains ''non-removable'' (lower ''Li-Po'')"
  "\<not> contains ''non-removable'' (lower '', Li-Po'')"
  by code_simp+

text \<open>
  Claim C7, as stated, fails: for the BATTERY / Type text \<open>"5000 mAh, Li-Po"\<close> the raw text
  with the matched capacity removed is \<open>", Li-Po"\<close>, and \<open>Type:\<close> is \<open>"Li-Po"\<close>.
\<close>

theorem battery_type_not_plain_removal:
  "map_of (battery_data \<lparr>url = ''u'', name = ''n'', image = None, highlights = [],
       specs = Some [''BATTERY'' \<mapsto> [''Type'' \<mapsto> ''5000 mAh, Li-Po'']]\<rparr>) ''Type:''
     = Some ''Li-Po'' \<and>
   claimed_battery_type ''5000 mAh, Li-Po'' = '', Li-Po''"
  by (simp add: battery_data_def get_spec_eq battery_type_eq claimed_battery_type_def
      battery_counter_eval contains_iff_sublist[symmetric])

text \<open>
  Claim C7, amended. For every raw record, with \<open>raw\<close> the text at BATTERY / Type:
  \<open>Capacity:\<close> is the first match of \<open>(\d+\s*mAh)\<close> in \<open>raw\<close>, empty if there is none;
  \<open>Type:\<close> is \<open>raw\<close> with every occurrence of the matched capacity text removed and then
  commas and spaces stripped from both ends (\<open>raw\<close> itself when there is no match), with
  \<open>", Not user replaceable"\<close> appended exactly when that remaining text contains
  \<open>non-removable\<close> in any case. For \<open>raw = "Li-Ion 5000 mAh, non-removable"\<close>, \<open>Capacity:\<close> is
  \<open>"5000 mAh"\<close> and \<open>Type:\<close> is \<open>"Li-Ion , non-removable, Not user replaceable"\<close>.
\<close>

theorem battery_type_capacity:
  "let raw = get_spec data ''BATTERY'' ''Type'' '''';
       rest = (case group1 capacity_rx raw of
                 None \<Rightarrow> raw
               | Some c \<Rightarrow> strip_chars '', '' (replace c '''' raw))
   in map_of (battery_data data) ''Capacity:'' =
        Some (case group1 capacity_rx raw of None \<Rightarrow> '''' | Some c \<Rightarrow> c) \<and>
      (case group1 capacity_rx raw of
         None \<Rightarrow> no_match capacity_rx raw
       | Some c \<Rightarrow> first_match capacity_rx raw [c]) \<and>
      map_of (battery_data data) ''Type:'' =
        Some (if sublist ''non-removable'' (lower rest) then rest @ '', Not user replaceable''
              else rest) \<and>
      (raw = ''Li-Ion 5000 mAh, non-removable'' \<longrightarrow>
         map_of (battery_data data) ''Capacity:'' = Some ''5000 mAh'' \<and>
         map_of (battery_data data) ''Type:'' =
           Some ''Li-Ion , non-removable, Not user replaceable'')"
proof -
  define raw where "raw = get_spec data ''BATTERY'' ''Type'' ''''"
  have f: "map_of (battery_data data) ''Capacity:'' = Some (capacity raw)"
    "map_of (battery_data data) ''Type:'' = Some (battery_type raw)"
    by (simp_all add: battery_data_def Let_def raw_def)
  have m: "case group1 capacity_rx raw of
         None \<Rightarrow> no_match capacity_rx raw
       | Some c \<Rightarrow> first_match capacity_rx raw [c]"
    unfolding capacity_rx_def
    using group1_None[of _ "[]" raw] group1_single[of _ raw]
    by (auto split: option.splits)
  have c1: "map_of (battery_data data) ''Capacity:'' =
        Some (case group1 capacity_rx raw of None \<Rightarrow> '''' | Some c \<Rightarrow> c)"
    using f(1) capacity_eq[of raw] by simp
  have c3: "map_of (battery_data data) ''Type:'' =
      Some (if sublist ''non-removable''
                 (lower (case group1 capacity_rx raw of
                           None \<Rightarrow> raw
                         | Some c \<Rightarrow> strip_chars '', '' (replace c '''' raw)))
            then (case group1 capacity_rx raw of
                    None \<Rightarrow> raw
                  | Some c \<Rightarrow> strip_chars '', '' (replace c '''' raw)) @ '', Not user replaceable''
            else (case group1 capacity_rx raw of
                    None \<Rightarrow> raw
                  | Some c \<Rightarrow> strip_chars '', '' (replace c '''' raw)))"
    using f(2) battery_type_eq[of raw] by (simp add: Let_def)
  have ex: "capacity ''Li-Ion 5000 mAh, non-removable'' = ''5000 mAh''"
    "battery_type ''Li-Ion 5000 mAh, non-removable'' =
       ''Li-Ion , non-removable, Not user replaceable''"
    by (simp_all add: capacity_eq battery_type_eq battery_example_eval
        contains_iff_sublist[symmetric])
  have c4: "raw = ''Li-Ion 5000 mAh, non-removable'' \<longrightarrow>
         map_of (battery_data data) ''Capacity:'' = Some ''5000 mAh'' \<and>
         map_of (battery_data data) ''Type:'' =
           Some ''Li-Ion , non-removable, Not user replaceable''"
    using f ex by simp
  show ?thesis
    unfolding Let_def raw_def[symmetric]
    by (intro conjI c1 m c3 c4)
qed

theorem battery_type_capacity_witness:
  "map_of (battery_data \<lparr>url = ''u'', name = ''n'', image = None, highlights = [],
       specs = Some [''BATTERY'' \<mapsto> [''Type'' \<mapsto> ''Li-Ion 5000 mAh, non-removable'']]\<rparr>)
     ''Capacity:'' = Some ''5000 mAh'' \<and>
   map_of (battery_data \<lparr>url = ''u'', name = ''n'', image = None, highlights = [],
       specs = Some [''BATTERY'' \<mapsto> [''Type'' \<mapsto> ''Li-Ion 5000 mAh, non-removable'']]\<rparr>)
     ''Type:'' = Some ''Li-Ion , non-removable, Not user replaceable''"
proof -
  have g: "get_spec \<lparr>url = ''u'', name = ''n'', image = None, highlights = [],
       specs = Some [''BATTERY'' \<mapsto> [''Type'' \<mapsto> ''Li-Ion 5000 mAh, non-removable'']]\<rparr>
       ''BATTERY'' ''Type'' '''' = ''Li-Ion 5000 mAh, non-removable''"
    by (simp add: get_spec_eq)
  show ?thesis
    using battery_type_capacity [of "\<lparr>url = ''u'', name = ''n'', image = None, highlights = [],
       specs = Some [''BATTERY'' \<mapsto> [''Type'' \<mapsto> ''Li-Ion 5000 mAh, non-removable'']]\<rparr>"]
    unfolding Let_def g by blast
qed

section \<open>Storage and RAM\<close>

lemma search_storage_ram_shape:
  assumes "search storage_ram_rx s = Some ps"
  shows "first_match storage_ram_rx s ps \<and> (\<exists>st a rm b. ps = [st, a, rm, b])"
proof -
  have f: "first_match storage_ram_rx s ps" using assms by (rule search_Some_first_match)
  then have "texts_of storage_ram_rx ps" by (auto simp: first_match_def)
  then have "\<exists>st a rm b. ps = [st, a, rm, b]"
    by (auto simp: texts_of_def storage_ram_rx_def list_all2_Cons2)
  with f show ?thesis by simp
qed

lemma storage_ram_eq:
  "storage_ram s =
     (case search storage_ram_rx s of
        None \<Rightarrow> ((case group1 storage_rx s of None \<Rightarrow> '''' | Some g \<Rightarrow> g),
                 (case group1 ram_rx s of None \<Rightarrow> '''' | Some g \<Rightarrow> g))
      | Some ps \<Rightarrow> (ps ! 0, ps ! 2))"
proof (cases "search storage_ram_rx s")
  case None
  then show ?thesis by (simp add: storage_ram_def)
next
  case (Some ps)
  then obtain st a rm b where "ps = [st, a, rm, b]"
    using search_storage_ram_shape by blast
  with Some show ?thesis by (simp add: storage_ram_def)
qed

lemma lower_Nil_iff: "lower v = [] \<longleftrightarrow> v = []"
  by (simp add: lower_def)

lemma card_slot_condition:
  "lower (get_spec data ''MEMORY'' ''Card slot'' '''') \<in> set [''no'', ''''] \<longleftrightarrow>
     card_slot_absent_empty_or_no data"
  by (auto simp: get_spec_eq card_slot_absent_empty_or_no_def lower_Nil_iff
      split: option.splits)

lemma hardware_fields:
  "map_of (hardware_data data) ''RAM:'' =
     Some (snd (storage_ram (get_spec data ''MEMORY'' ''Internal'' '''')))"
  "map_of (hardware_data data) ''Internal storage:'' =
     Some (internal_storage (fst (storage_ram (get_spec data ''MEMORY'' ''Internal'' '''')))
             (get_spec data ''MEMORY'' ''Card slot'' ''''))"
  by (simp_all add: hardware_data_def Let_def)

lemma hardware_example_eval:
  "storage_ram ''256GB 12GB RAM'' = (''256GB'', ''12GB'')"
  "lower ''No'' = ''no''"
  "storage_ram ''128GB 8GB RAM'' = (''128GB'', ''8GB'')"
  by code_simp+

text \<open>
  Claim C8, as stated, fails: at a record whose MEMORY category has the key
  \<open>Card slot\<close> with an empty text, the field is neither absent nor \<open>no\<close>, and
  \<open>Internal storage:\<close> still ends in \<open>not expandable\<close>.
\<close>

theorem not_expandable_on_empty_card_slot:
  "\<not> card_slot_absent_or_no
       \<lparr>url = ''u'', name = ''n'', image = None, highlights = [],
          specs = Some [''MEMORY'' \<mapsto> [''Internal'' \<mapsto> ''128GB 8GB RAM'', ''Card slot'' \<mapsto> '''']]\<rparr> \<and>
   map_of (hardware_data
       \<lparr>url = ''u'', name = ''n'', image = None, highlights = [],
          specs = Some [''MEMORY'' \<mapsto> [''Internal'' \<mapsto> ''128GB 8GB RAM'', ''Card slot'' \<mapsto> '''']]\<rparr>)
     ''Internal storage:'' = Some ''128GB (UFS), not expandable''"
  by (simp add: card_slot_absent_or_no_def hardware_fields get_spec_eq
      hardware_example_eval internal_storage_def lower_def)

text \<open>
  Claim C8, amended. For every raw record, with \<open>internal\<close> the text at MEMORY / Internal:
  when \<open>(\d+\s*(?:GB|TB))\s+(\d+\s*GB)\s+RAM\<close> matches, storage and RAM are groups 1 and 2 of
  its first match; when it does not, storage is the first match of \<open>(\d+\s*(?:GB|TB))\<close> and
  RAM is group 1 of the first match of \<open>(\d+\s*GB)\s+RAM\<close>, each empty when its pattern has
  no match. \<open>RAM:\<close> is that RAM, and \<open>Internal storage:\<close> is the storage followed by
  \<open>" (UFS), not expandable"\<close> exactly when the MEMORY / Card slot field is absent, empty, or
  \<open>no\<close> in any case, and by \<open>" (UFS)"\<close> otherwise. For \<open>internal = "256GB 12GB RAM"\<close> and
  card slot \<open>"No"\<close>, \<open>RAM:\<close> is \<open>"12GB"\<close> and \<open>Internal storage:\<close> is
  \<open>"256GB (UFS), not expandable"\<close>.
\<close>

theorem storage_ram_extraction:
  "let internal = get_spec data ''MEMORY'' ''Internal'' '''';
       storage = fst (storage_ram internal);
       ram = snd (storage_ram internal)
   in (case search storage_ram_rx internal of
         Some ps \<Rightarrow>
           first_match storage_ram_rx internal ps \<and> storage = ps ! 0 \<and> ram = ps ! 2
       | None \<Rightarrow>
           no_match storage_ram_rx internal \<and>
           storage = (case group1 storage_rx internal of None \<Rightarrow> '''' | Some g \<Rightarrow> g) \<and>
           ram = (case group1 ram_rx internal of None \<Rightarrow> '''' | Some g \<Rightarrow> g) \<and>
           (case group1 storage_rx internal of
              None \<Rightarrow> no_match storage_rx internal
            | Some g \<Rightarrow> first_match storage_rx internal [g]) \<and>
           (case group1 ram_rx internal of
              None \<Rightarrow> no_match ram_rx internal
            | Some g \<Rightarrow> \<exists>ws. first_match ram_rx internal (g # ws))) \<and>
      map_of (hardware_data data) ''RAM:'' = Some ram \<and>
      map_of (hardware_data data) ''Internal storage:'' =
        Some (storage @ (if card_slot_absent_empty_or_no data then '' (UFS), not expandable''
                         else '' (UFS)'')) \<and>
      (internal = ''256GB 12GB RAM'' \<and> get_spec data ''MEMORY'' ''Card slot'' '''' = ''No'' \<longrightarrow>
         map_of (hardware_data data) ''RAM:'' = Some ''12GB'' \<and>
         map_of (hardware_data data) ''Internal storage:'' = Some ''256GB (UFS), not expandable'')"
proof -
  define internal where "internal = get_spec data ''MEMORY'' ''Internal'' ''''"
  have s1: "case group1 storage_rx internal of
              None \<Rightarrow> no_match storage_rx internal
            | Some g \<Rightarrow> first_match storage_rx internal [g]"
    unfolding storage_rx_def
    using group1_None[of _ "[]" internal] group1_single[of _ internal]
    by (auto split: option.splits)
  have s2: "case group1 ram_rx internal of
              None \<Rightarrow> no_match ram_rx internal
            | Some g \<Rightarrow> \<exists>ws. first_match ram_rx internal (g # ws)"
    unfolding ram_rx_def by (rule group1_cases)
  have c1: "case search storage_ram_rx internal of
         Some ps \<Rightarrow>
           first_match storage_ram_rx internal ps \<and>
           fst (storage_ram internal) = ps ! 0 \<and> snd (storage_ram internal) = ps ! 2
       | None \<Rightarrow>
           no_match storage_ram_rx internal \<and>
           fst (storage_ram internal) =
             (case group1 storage_rx internal of None \<Rightarrow> '''' | Some g \<Rightarrow> g) \<and>
           snd (storage_ram internal) =
             (case group1 ram_rx internal of None \<Rightarrow> '''' | Some g \<Rightarrow> g) \<and>
           (case group1 storage_rx internal of
              None \<Rightarrow> no_match storage_rx internal
            | Some g \<Rightarrow> first_match storage_rx internal [g]) \<and>
           (case group1 ram_rx internal of
              None \<Rightarrow> no_match ram_rx internal
            | Some g \<Rightarrow> \<exists>ws. first_match ram_rx internal (g # ws))"
  proof (cases "search storage_ram_rx internal")
    case None
    then have "no_match storage_ram_rx internal" by (simp add: search_None_no_match)
    with None s1 s2 show ?thesis by (simp add: storage_ram_eq)
  next
    case (Some ps)
    then have "first_match storage_ram_rx internal ps"
      by (rule search_Some_first_match)
    with Some show ?thesis by (simp add: storage_ram_eq)
  qed
  have c2: "map_of (hardware_data data) ''RAM:'' = Some (snd (storage_ram internal))"
    by (simp add: hardware_fields internal_def)
  have c3: "map_of (hardware_data data) ''Internal storage:'' =
        Some (fst (storage_ram internal) @
              (if card_slot_absent_empty_or_no data then '' (UFS), not expandable''
               else '' (UFS)''))"
    using card_slot_condition[of data]
    by (simp add: hardware_fields internal_def internal_storage_def)
  have c4: "internal = ''256GB 12GB RAM'' \<and> get_spec data ''MEMORY'' ''Card slot'' '''' = ''No'' \<longrightarrow>
         map_of (hardware_data data) ''RAM:'' = Some ''12GB'' \<and>
         map_of (hardware_data data) ''Internal storage:'' = Some ''256GB (UFS), not expandable''"
    by (simp add: hardware_fields internal_def[symmetric] hardware_example_eval
        internal_storage_def)
  show ?thesis
    unfolding Let_def internal_def[symmetric]
    by (intro conjI c1 c2 c3 c4)
qed

theorem storage_ram_extraction_witness:
  "map_of (hardware_data \<lparr>url = ''u'', name = ''n'', image = None, highlights = [],
       specs = Some [''MEMORY'' \<mapsto> [''Internal'' \<mapsto> ''256GB 12GB RAM'', ''Card slot'' \<mapsto> ''No'']]\<rparr>)
     ''RAM:'' = Some ''12GB'' \<and>
   map_of (hardware_data \<lparr>url = ''u'', name = ''n'', image = None, highlights = [],
       specs = Some [''MEMORY'' \<mapsto> [''Internal'' \<mapsto> ''256GB 12GB RAM'', ''Card slot'' \<mapsto> ''No'']]\<rparr>)
     ''Internal storage:'' = Some ''256GB (UFS), not expandable''"
proof -
  have g: "get_spec \<lparr>url = ''u'', name = ''n'', image = None, highlights = [],
       specs = Some [''MEMORY'' \<mapsto> [''Internal'' \<mapsto> ''256GB 12GB RAM'', ''Card slot'' \<mapsto> ''No'']]\<rparr>
       ''MEMORY'' ''Internal'' '''' = ''256GB 12GB RAM''"
    "get_spec \<lparr>url = ''u'', name = ''n'', image = None, highlights = [],
       specs = Some [''MEMORY'' \<mapsto> [''Internal'' \<mapsto> ''256GB 12GB RAM'', ''Card slot'' \<mapsto> ''No'']]\<rparr>
       ''MEMORY'' ''Card slot'' '''' = ''No''"
    by (simp_all add: get_spec_eq)
  show ?thesis
    using storage_ram_extraction [of "\<lparr>url = ''u'', name = ''n'', image = None, highlights = [],
       specs = Some [''MEMORY'' \<mapsto> [''Internal'' \<mapsto> ''256GB 12GB RAM'', ''Card slot'' \<mapsto> ''No'']]\<rparr>"]
    unfolding Let_def g by blast
qed

section \<open>The fixed schema\<close>

lemma section_labels:
  "camera_data data = Some cam \<Longrightarrow> map fst cam =
     [''Rear:'', ''Flash:'', ''Front:'', ''Folded:'', ''Main camera:'', ''Second camera:'',
      ''Third camera:'', ''Specifications:'', ''Video recording:'']"
  "map fst (design_data data) =
     [''Keys:'', ''Colors:'', ''Folded:'', ''Weight:'', ''Materials:'', ''Biometrics:'',
      ''Dimensions:'', ''Resistance:'']"
  "map fst (battery_data data) = [''Type:'', ''Capacity:'', ''Charging:'', ''Max charge speed:'']"
  "display_data data = Some disp \<Longrightarrow> map fst disp =
     [''Size:'', ''Features:'', ''Resolution:'', ''Technology:'', ''Refresh rate:'',
      ''Screen-to-body:'', ''Peak brightness:'', ''Front cover display:'']"
  "map fst (cellular_data data) =
     [''Technology:'', ''2G bands:'', ''3G bands:'', ''4G bands:'', ''5G bands:'', ''SIM type:'']"
  "map fst (hardware_data data) =
     [''OS:'', ''GPU:'', ''RAM:'', ''Processor:'', ''Device type:'', ''Internal storage:'']"
  "map fst (multimedia_data data) =
     [''Speakers:'', ''Headphones:'', ''Screen mirroring:'', ''Additional microphone(s):'']"
  "map fst (connectivity_data data) =
     [''USB:'', ''Other:'', ''Wi-Fi:'', ''Sensors:'', ''Features:'', ''Location:'', ''Bluetooth:'']"
  by (auto simp: camera_data_def design_data_def battery_data_def display_data_def
      cellular_data_def hardware_data_def multimedia_data_def connectivity_data_def Let_def
      index0_split_chr split: if_splits)

lemma transform_sections:
  "\<exists>cam disp. camera_data data = Some cam \<and> display_data data = Some disp \<and>
     transform_gsmarena_to_formatted data =
       Some [(''Camera'', cam), (''Design'', design_data data), (''Battery'', battery_data data),
             (''Display'', disp), (''Cellular'', cellular_data data),
             (''Hardware'', hardware_data data), (''Multimedia'', multimedia_data data),
             (''Connectivity & Features'', connectivity_data data)]"
  using camera_data_total[of data] display_data_total[of data]
  by (auto simp: transform_gsmarena_to_formatted_def)

lemma transform_shape:
  "transform_gsmarena_to_formatted data = Some out \<Longrightarrow>
     map (\<lambda>(sec, entries). (sec, map fst entries)) out = schema"
  using transform_sections[of data]
  by (auto simp: schema_def section_labels)

lemma labels_present:
  assumes "map (\<lambda>(sec, entries). (sec, map fst entries)) out = schema"
    and "(sec, labels) \<in> set schema" and "label \<in> set labels"
  shows "\<exists>v. field out sec label = Some v"
proof -
  have d: "distinct (map fst out)"
  proof -
    have "map fst out = map fst (map (\<lambda>(sec, entries). (sec, map fst entries)) out)"
      by (simp add: comp_def case_prod_beta)
    also have "\<dots> = map fst schema" using assms(1) by simp
    finally show ?thesis by (simp add: schema_def)
  qed
  have "(sec, labels) \<in> set (map (\<lambda>(sec, entries). (sec, map fst entries)) out)"
    using assms(1,2) by simp
  then obtain entries where e: "(sec, entries) \<in> set out" "map fst entries = labels"
    by auto
  then have "map_of out sec = Some entries" using d by simp
  moreover have "label \<in> fst ` set entries" using e(2) assms(3) by (simp flip: set_map)
  then have "map_of entries label \<noteq> None" by (simp add: map_of_eq_None_iff)
  then obtain v where "map_of entries label = Some v" by blast
  ultimately show ?thesis by (simp add: field_def)
qed

section \<open>Absent data\<close>

lemma main_cam_spec_absent: "absent data main_camera_keys \<Longrightarrow> main_cam_spec data = []"
  by (simp add: absent_def main_camera_keys_def main_cam_spec_def py_or_def)

lemma camera_data_no_main:
  "main_cam_spec data = [] \<Longrightarrow> camera_data data =
     Some [(''Rear:'', ''''),
           (''Flash:'', get_spec data ''MAIN CAMERA'' ''Features'' ''''),
           (''Front:'', py_or (get_spec data ''SELFIE CAMERA'' ''Single'' '''')
                              (get_spec data ''SELFIE CAMERA'' ''Dual'' '''')),
           (''Folded:'', ''''),
           (''Main camera:'', ''''),
           (''Second camera:'', ''''),
           (''Third camera:'', ''''),
           (''Specifications:'', ''''),
           (''Video recording:'', get_spec data ''MAIN CAMERA'' ''Video'' '''')]"
  by (simp add: camera_data_def Let_def)

lemma camera_data_other:
  "camera_data data = Some cam \<Longrightarrow>
     map_of cam ''Flash:'' = Some (get_spec data ''MAIN CAMERA'' ''Features'' '''') \<and>
     map_of cam ''Front:'' = Some (py_or (get_spec data ''SELFIE CAMERA'' ''Single'' '''')
                                         (get_spec data ''SELFIE CAMERA'' ''Dual'' '''')) \<and>
     map_of cam ''Folded:'' = Some '''' \<and>
     map_of cam ''Video recording:'' = Some (get_spec data ''MAIN CAMERA'' ''Video'' '''')"
  by (cases "main_cam_spec data = []")
     (auto simp: camera_data_def Let_def index0_split_chr)

lemma camera_absent_all:
  assumes "camera_data data = Some cam"
  shows "list_all (\<lambda>(label, srcs). absent data srcs \<longrightarrow> map_of cam label = Some '''')
           camera_reads"
proof -
  have m: "absent data main_camera_keys \<longrightarrow>
       map_of cam ''Rear:'' = Some '''' \<and> map_of cam ''Main camera:'' = Some '''' \<and>
       map_of cam ''Second camera:'' = Some '''' \<and> map_of cam ''Third camera:'' = Some '''' \<and>
       map_of cam ''Specifications:'' = Some ''''"
  proof
    assume "absent data main_camera_keys"
    then have "main_cam_spec data = []" by (rule main_cam_spec_absent)
    then show "map_of cam ''Rear:'' = Some '''' \<and> map_of cam ''Main camera:'' = Some '''' \<and>
       map_of cam ''Second camera:'' = Some '''' \<and> map_of cam ''Third camera:'' = Some '''' \<and>
       map_of cam ''Specifications:'' = Some ''''"
      using assms camera_data_no_main[of data] by auto
  qed
  show ?thesis
    using m camera_data_other[OF assms]
    by (simp add: camera_reads_def absent_def py_or_def)
qed

lemma design_absent_all:
  "list_all (\<lambda>(label, srcs). absent data srcs \<longrightarrow> map_of (design_data data) label = Some '''')
     design_reads"
  by (simp add: design_reads_def design_data_def absent_def py_or_def)

lemma battery_empty_eval:
  "battery_type '''' = ''''" "capacity '''' = ''''" "max_charge_speed '''' = ''''"
  by (simp_all add: battery_type_def type_info_def capacity_def max_charge_speed_def
      search_Nil_eval lower_def)

lemma battery_absent_all:
  "list_all (\<lambda>(label, srcs). absent data srcs \<longrightarrow> map_of (battery_data data) label = Some '''')
     battery_reads"
  by (simp add: battery_reads_def battery_data_def absent_def Let_def battery_empty_eval)

lemma display_empty_eval:
  "refresh_rate '''' = ''''" "screen_to_body '''' = ''''" "peak_brightness '''' = ''''"
  "strip '''' = ''''"
  by (simp_all add: refresh_rate_def screen_to_body_def peak_brightness_def search_Nil_eval
      strip_def strip_with_def)

lemma display_data_unfold:
  "display_data data =
     Some [(''Size:'', strip (takeWhile (\<lambda>c. c \<noteq> CHR '','') (get_spec data ''DISPLAY'' ''Size'' ''''))),
           (''Features:'', get_spec data ''FEATURES'' ''Sensors'' ''''),
           (''Resolution:'', get_spec data ''DISPLAY'' ''Resolution'' ''''),
           (''Technology:'', takeWhile (\<lambda>c. c \<noteq> CHR '','') (get_spec data ''DISPLAY'' ''Type'' '''')),
           (''Refresh rate:'', refresh_rate (get_spec data ''DISPLAY'' ''Type'' '''')),
           (''Screen-to-body:'', screen_to_body (get_spec data ''DISPLAY'' ''Size'' '''')),
           (''Peak brightness:'', peak_brightness (get_spec data ''DISPLAY'' ''Type'' '''')),
           (''Front cover display:'',
              py_or (get_spec data ''DISPLAY'' ''Secondary display'' '''') '''')]"
  by (simp add: display_data_def Let_def index0_split_chr)

lemma display_absent_all:
  assumes "display_data data = Some disp"
  shows "list_all (\<lambda>(label, srcs). absent data srcs \<longrightarrow> map_of disp label = Some '''')
           display_reads"
proof -
  have "disp =
     [(''Size:'', strip (takeWhile (\<lambda>c. c \<noteq> CHR '','') (get_spec data ''DISPLAY'' ''Size'' ''''))),
           (''Features:'', get_spec data ''FEATURES'' ''Sensors'' ''''),
           (''Resolution:'', get_spec data ''DISPLAY'' ''Resolution'' ''''),
           (''Technology:'', takeWhile (\<lambda>c. c \<noteq> CHR '','') (get_spec data ''DISPLAY'' ''Type'' '''')),
           (''Refresh rate:'', refresh_rate (get_spec data ''DISPLAY'' ''Type'' '''')),
           (''Screen-to-body:'', screen_to_body (get_spec data ''DISPLAY'' ''Size'' '''')),
           (''Peak brightness:'', peak_brightness (get_spec data ''DISPLAY'' ''Type'' '''')),
           (''Front cover display:'',
              py_or (get_spec data ''DISPLAY'' ''Secondary display'' '''') '''')]"
    using assms display_data_unfold[of data] by simp
  then show ?thesis
    by (simp add: display_reads_def absent_def display_empty_eval py_or_def)
qed

lemma cellular_absent_all:
  "list_all (\<lambda>(label, srcs). absent data srcs \<longrightarrow> map_of (cellular_data data) label = Some '''')
     cellular_reads"
  by (simp add: cellular_reads_def cellular_data_def absent_def)

lemma storage_ram_empty_eval: "storage_ram '''' = ('''', '''')"
  by (simp add: storage_ram_def search_Nil_eval)

lemma hardware_absent_all:
  "list_all (\<lambda>(label, srcs). absent data srcs \<longrightarrow> map_of (hardware_data data) label = Some '''')
     hardware_reads"
  by (simp add: hardware_reads_def hardware_data_def absent_def Let_def storage_ram_empty_eval)

lemma multimedia_absent_all:
  "list_all (\<lambda>(label, srcs). absent data srcs \<longrightarrow> map_of (multimedia_data data) label = Some '''')
     multimedia_reads"
  by (simp add: multimedia_reads_def multimedia_data_def absent_def lower_def)

lemma connectivity_absent_all:
  "list_all (\<lambda>(label, srcs). absent data srcs \<longrightarrow>
       map_of (connectivity_data data) label = Some '''')
     connectivity_reads"
  by (simp add: connectivity_reads_def connectivity_data_def absent_def other_features_def)

lemma list_allD: "list_all P xs \<Longrightarrow> x \<in> set xs \<Longrightarrow> P x"
  by (simp add: list_all_iff)

lemma absent_gives_empty:
  assumes "transform_gsmarena_to_formatted data = Some out"
    and "(sec, tbl) \<in> set reads" and "(label, srcs) \<in> set tbl" and "absent data srcs"
  shows "field out sec label = Some ''''"
proof -
  from transform_sections[of data]
  obtain cam disp where s: "camera_data data = Some cam" "display_data data = Some disp"
    and t: "transform_gsmarena_to_formatted data =
       Some [(''Camera'', cam), (''Design'', design_data data), (''Battery'', battery_data data),
             (''Display'', disp), (''Cellular'', cellular_data data),
             (''Hardware'', hardware_data data), (''Multimedia'', multimedia_data data),
             (''Connectivity & Features'', connectivity_data data)]"
    by blast
  have o: "out = [(''Camera'', cam), (''Design'', design_data data),
             (''Battery'', battery_data data), (''Display'', disp),
             (''Cellular'', cellular_data data), (''Hardware'', hardware_data data),
             (''Multimedia'', multimedia_data data),
             (''Connectivity & Features'', connectivity_data data)]"
    using t assms(1) by simp
  have f: "field out ''Camera'' l = map_of cam l"
    "field out ''Design'' l = map_of (design_data data) l"
    "field out ''Battery'' l = map_of (battery_data data) l"
    "field out ''Display'' l = map_of disp l"
    "field out ''Cellular'' l = map_of (cellular_data data) l"
    "field out ''Hardware'' l = map_of (hardware_data data) l"
    "field out ''Multimedia'' l = map_of (multimedia_data data) l"
    "field out ''Connectivity & Features'' l = map_of (connectivity_data data) l" for l
    by (simp_all add: field_def o)
  have A: "list_all (\<lambda>(sec, tbl).
             list_all (\<lambda>(label, srcs). absent data srcs \<longrightarrow> field out sec label = Some []) tbl)
           reads"
    using camera_absent_all[OF s(1)] design_absent_all[of data] battery_absent_all[of data]
      display_absent_all[OF s(2)] cellular_absent_all[of data] hardware_absent_all[of data]
      multimedia_absent_all[of data] connectivity_absent_all[of data]
    by (simp add: reads_def f)
  from list_allD[OF A assms(2)]
  have "list_all (\<lambda>(label, srcs). absent data srcs \<longrightarrow> field out sec label = Some []) tbl"
    by simp
  from list_allD[OF this assms(3)] assms(4) show ?thesis by simp
qed

lemma fixed_texts:
  assumes "transform_gsmarena_to_formatted data = Some out"
  shows "field out ''Design'' ''Keys:'' = Some ''Right: Volume control, Lock/Unlock key''"
    and "field out ''Hardware'' ''Device type:'' = Some ''Smartphone''"
    and "field out ''Multimedia'' ''Screen mirroring:'' = Some ''Wireless screen share''"
    and "field out ''Hardware'' ''Internal storage:'' =
           Some (fst (storage_ram (get_spec data ''MEMORY'' ''Internal'' '''')) @
                 (if card_slot_absent_empty_or_no data then '' (UFS), not expandable''
                  else '' (UFS)''))"
proof -
  from transform_sections[of data]
  obtain cam disp where t: "transform_gsmarena_to_formatted data =
       Some [(''Camera'', cam), (''Design'', design_data data), (''Battery'', battery_data data),
             (''Display'', disp), (''Cellular'', cellular_data data),
             (''Hardware'', hardware_data data), (''Multimedia'', multimedia_data data),
             (''Connectivity & Features'', connectivity_data data)]"
    by blast
  have o: "out = [(''Camera'', cam), (''Design'', design_data data),
             (''Battery'', battery_data data), (''Display'', disp),
             (''Cellular'', cellular_data data), (''Hardware'', hardware_data data),
             (''Multimedia'', multimedia_data data),
             (''Connectivity & Features'', connectivity_data data)]"
    using t assms by simp
  show "field out ''Design'' ''Keys:'' = Some ''Right: Volume control, Lock/Unlock key''"
    by (simp add: field_def o design_data_def)
  show "field out ''Hardware'' ''Device type:'' = Some ''Smartphone''"
    by (simp add: field_def o hardware_data_def Let_def)
  show "field out ''Multimedia'' ''Screen mirroring:'' = Some ''Wireless screen share''"
    by (simp add: field_def o multimedia_data_def)
  have "field out ''Hardware'' ''Internal storage:'' =
      map_of (hardware_data data) ''Internal storage:''"
    by (simp add: field_def o)
  then show "field out ''Hardware'' ''Internal storage:'' =
           Some (fst (storage_ram (get_spec data ''MEMORY'' ''Internal'' '''')) @
                 (if card_slot_absent_empty_or_no data then '' (UFS), not expandable''
                  else '' (UFS)''))"
    using card_slot_condition[of data]
    by (simp add: hardware_fields internal_storage_def)
qed

lemma internal_storage_absent:
  assumes "transform_gsmarena_to_formatted data = Some out"
    and "absent data [(''MEMORY'', ''Internal'')]"
  shows "field out ''Hardware'' ''Internal storage:'' =
           Some (if card_slot_absent_empty_or_no data then '' (UFS), not expandable''
                 else '' (UFS)'')"
  using fixed_texts(4)[OF assms(1)] assms(2)
  by (simp add: absent_def storage_ram_empty_eval)

text \<open>Every label of the schema is listed in \<open>reads\<close>, except the three labels with a fixed
  text and \<open>Internal storage:\<close>.\<close>

lemma reads_cover_schema:
  "list_all (\<lambda>(sec, labels).
      list_all (\<lambda>label.
          (sec, label) \<in> set [(''Design'', ''Keys:''), (''Hardware'', ''Device type:''),
                              (''Hardware'', ''Internal storage:''),
                              (''Multimedia'', ''Screen mirroring:'')] \<or>
          (case map_of reads sec of None \<Rightarrow> False | Some tbl \<Rightarrow> map_of tbl label \<noteq> None))
        labels)
    schema"
  by code_simp

text \<open>
  Claim C5, as stated, fails in its last part: at a record whose MEMORY category has no
  \<open>Internal\<close> key, the label \<open>Internal storage:\<close> does not map to the empty string.
\<close>

theorem internal_storage_not_empty_when_absent:
  "absent \<lparr>url = ''u'', name = ''n'', image = None, highlights = [],
            specs = Some [''MEMORY'' \<mapsto> [''Card slot'' \<mapsto> ''microSDXC'']]\<rparr>
     [(''MEMORY'', ''Internal'')] \<and>
   formatted_field \<lparr>url = ''u'', name = ''n'', image = None, highlights = [],
            specs = Some [''MEMORY'' \<mapsto> [''Card slot'' \<mapsto> ''microSDXC'']]\<rparr>
     ''Hardware'' ''Internal storage:'' = Some '' (UFS)''"
proof -
  let ?d = "\<lparr>url = ''u'', name = ''n'', image = None, highlights = [],
            specs = Some [''MEMORY'' \<mapsto> [''Card slot'' \<mapsto> ''microSDXC'']]\<rparr>"
  have a: "absent ?d [(''MEMORY'', ''Internal'')]"
    by (simp add: absent_def get_spec_eq)
  have c: "\<not> card_slot_absent_empty_or_no ?d"
    by (simp add: card_slot_absent_empty_or_no_def lower_def)
  obtain out where o: "transform_gsmarena_to_formatted ?d = Some out"
    using transform_total[of ?d] by blast
  have "field out ''Hardware'' ''Internal storage:'' = Some '' (UFS)''"
    using internal_storage_absent[OF o a] c by simp
  then have "formatted_field ?d ''Hardware'' ''Internal storage:'' = Some '' (UFS)''"
    by (simp add: formatted_field_def o)
  with a show ?thesis by simp
qed

text \<open>
  Claim C5, amended. For every raw record the formatter returns a record whose keys are
  exactly the eight section names, in the fixed order, each section holding exactly its
  fixed labels, whatever raw fields are present: no label is ever missing. A label whose
  raw fields all give the empty text (as absent fields do) maps to the empty string; the
  exceptions are \<open>Keys:\<close>, \<open>Device type:\<close> and \<open>Screen mirroring:\<close>, which always hold their
  fixed text, and \<open>Internal storage:\<close>, which without MEMORY / Internal is
  \<open>" (UFS), not expandable"\<close> or \<open>" (UFS)"\<close>.
\<close>

theorem fixed_schema:
  "\<exists>out. transform_gsmarena_to_formatted data = Some out \<and>
     map (\<lambda>(sec, entries). (sec, map fst entries)) out = schema \<and>
     (\<forall>(sec, labels) \<in> set schema. \<forall>label \<in> set labels. \<exists>v. field out sec label = Some v) \<and>
     (\<forall>(sec, tbl) \<in> set reads. \<forall>(label, srcs) \<in> set tbl.
        absent data srcs \<longrightarrow> field out sec label = Some '''') \<and>
     field out ''Design'' ''Keys:'' = Some ''Right: Volume control, Lock/Unlock key'' \<and>
     field out ''Hardware'' ''Device type:'' = Some ''Smartphone'' \<and>
     field out ''Multimedia'' ''Screen mirroring:'' = Some ''Wireless screen share'' \<and>
     (absent data [(''MEMORY'', ''Internal'')] \<longrightarrow>
        field out ''Hardware'' ''Internal storage:'' =
          Some (if card_slot_absent_empty_or_no data then '' (UFS), not expandable''
                else '' (UFS)''))"
proof -
  obtain out where o: "transform_gsmarena_to_formatted data = Some out"
    using transform_total[of data] by blast
  have sh: "map (\<lambda>(sec, entries). (sec, map fst entries)) out = schema"
    using o by (rule transform_shape)
  have pr: "\<forall>(sec, labels) \<in> set schema. \<forall>label \<in> set labels. \<exists>v. field out sec label = Some v"
  proof (intro ballI, unfold split_paired_all case_prod_conv, intro ballI)
    fix sec labels label
    assume "(sec, labels) \<in> set schema" "label \<in> set labels"
    then show "\<exists>v. field out sec label = Some v" using labels_present[OF sh] by blast
  qed
  have ab: "\<forall>(sec, tbl) \<in> set reads. \<forall>(label, srcs) \<in> set tbl.
        absent data srcs \<longrightarrow> field out sec label = Some ''''"
  proof (intro ballI, unfold split_paired_all case_prod_conv, intro ballI,
      unfold split_paired_all case_prod_conv, intro impI)
    fix sec tbl label srcs
    assume "(sec, tbl) \<in> set reads" "(label, srcs) \<in> set tbl" "absent data srcs"
    then show "field out sec label = Some ''''" by (rule absent_gives_empty[OF o])
  qed
  have st: "absent data [(''MEMORY'', ''Internal'')] \<longrightarrow>
        field out ''Hardware'' ''Internal storage:'' =
          Some (if card_slot_absent_empty_or_no data then '' (UFS), not expandable''
                else '' (UFS)'')"
    using internal_storage_absent[OF o] by blast
  show ?thesis
    by (intro exI[of _ out] conjI o sh pr ab fixed_texts(1-3)[OF o] st)
qed

theorem fixed_schema_witness:
  "\<exists>out. transform_gsmarena_to_formatted
       \<lparr>url = ''u'', name = ''n'', image = None, highlights = [],
          specs = Some [''DISPLAY'' \<mapsto> [''Size'' \<mapsto> ''6.7 inches'']]\<rparr> = Some out \<and>
     map (\<lambda>(sec, entries). (sec, map fst entries)) out = schema \<and>
     field out ''Camera'' ''Rear:'' = Some ''''"
proof -
  let ?d = "\<lparr>url = ''u'', name = ''n'', image = None, highlights = [],
          specs = Some [''DISPLAY'' \<mapsto> [''Size'' \<mapsto> ''6.7 inches'']]\<rparr>"
  have a: "absent ?d main_camera_keys"
    by (simp add: absent_def main_camera_keys_def get_spec_eq)
  have r: "(''Camera'', camera_reads) \<in> set reads" by (simp add: reads_def)
  have l: "(''Rear:'', main_camera_keys) \<in> set camera_reads" by (simp add: camera_reads_def)
  from fixed_schema[of ?d] obtain out where
    o: "transform_gsmarena_to_formatted ?d = Some out"
      "map (\<lambda>(sec, entries). (sec, map fst entries)) out = schema"
      "\<forall>(sec, tbl) \<in> set reads. \<forall>(label, srcs) \<in> set tbl.
        absent ?d srcs \<longrightarrow> field out sec label = Some ''''"
    by blast
  from bspec[OF o(3) r]
  have "\<forall>(label, srcs) \<in> set camera_reads.
      absent ?d srcs \<longrightarrow> field out ''Camera'' label = Some ''''"
    by simp
  from bspec[OF this l] a have "field out ''Camera'' ''Rear:'' = Some ''''" by simp
  with o(1,2) show ?thesis by blast
qed

end
